theory Spec2Isabelle
  imports Complex_Main
begin

section \<open>The totals engine (\<open>TotalsService\<close>) of the store back end\<close>

text \<open>
  A shallow embedding of \<open>TotalsService\<close> (src/unnamed/part_000).

  A finite JavaScript number is a rational (\<open>rat\<close>), and the arithmetic of the
  source is that of IEEE 754 doubles: \<open>dadd\<close>, \<open>dsub\<close>, \<open>dmul\<close> and \<open>ddiv\<close>
  compute the exact result and round it to the nearest binary64 number, a tie going to
  the even significand (\<open>rnd64\<close>).  Overflow beyond the largest double and the sign
  of zero are not followed.  The one place where the source can produce a non-finite
  number, the division by \<open>item.quantity\<close> in \<open>getAllocationMap\<close>, is modelled
  with the type \<open>jsnum\<close> below, which has \<open>Infinity\<close>, \<open>-Infinity\<close> and
  \<open>NaN\<close>.

  A rejected promise (a \<open>throw\<close> inside an \<open>async\<close> method, or a failing
  collaborator) is the left injection of a sum type; \<open>await\<close> propagates it.
\<close>

subsection \<open>Numbers\<close>

fun bit_length :: "nat \<Rightarrow> nat" where
  \<comment> \<open>The number of binary digits of \<open>n\<close>.\<close>
  "bit_length n = (if n = 0 then 0 else Suc (bit_length (n div 2)))"

declare bit_length.simps [simp del]

definition pow2 :: "int \<Rightarrow> rat" where
  "pow2 e = (if 0 \<le> e then 2 ^ nat e else 1 / 2 ^ nat (- e))"

definition binade :: "rat \<Rightarrow> int" where
  \<comment> \<open>For \<open>x \<noteq> 0\<close>, the exponent \<open>e\<close> with \<open>2^e \<le> |x| < 2^(e+1)\<close>.\<close>
  "binade x =
     (let a = \<bar>x\<bar>
      in if 1 \<le> a then int (bit_length (nat \<lfloor>a\<rfloor>)) - 1
         else (let y = 1 / a; k = int (bit_length (nat \<lfloor>y\<rfloor>)) - 1
               in if y = pow2 k then - k else - k - 1))"

definition round_half_even :: "rat \<Rightarrow> int" where
  "round_half_even z =
     (let f = \<lfloor>z\<rfloor>; r = z - of_int f
      in if r < 1 / 2 then f
         else if 1 / 2 < r then f + 1
         else if even f then f else f + 1)"

definition rnd64 :: "rat \<Rightarrow> rat" where
  \<comment> \<open>Rounding to binary64: a significand of 53 bits, the exponent not below that of the
      subnormal numbers, round to nearest, ties to even.\<close>
  "rnd64 x =
     (if x = 0 then 0
      else (let e = max (binade x) (- 1022); q = pow2 (e - 52)
            in of_int (round_half_even (x / q)) * q))"

definition dadd :: "rat \<Rightarrow> rat \<Rightarrow> rat" where
  "dadd a b = rnd64 (a + b)"

definition dsub :: "rat \<Rightarrow> rat \<Rightarrow> rat" where
  "dsub a b = rnd64 (a - b)"

definition dmul :: "rat \<Rightarrow> rat \<Rightarrow> rat" where
  "dmul a b = rnd64 (a * b)"

definition ddiv :: "rat \<Rightarrow> rat \<Rightarrow> rat" where
  \<comment> \<open>For a divisor other than 0.\<close>
  "ddiv a b = rnd64 (a / b)"

definition Math_round :: "rat \<Rightarrow> rat" where
  \<comment> \<open>\<open>Math.round\<close>: the nearest integer, a tie going towards \<open>+\<infinity>\<close>.\<close>
  "Math_round v = of_int \<lfloor>v + 1 / 2\<rfloor>"

definition rounded :: "rat \<Rightarrow> rat" where
  \<comment> \<open>\<open>rounded(value) { return Math.round(value) }\<close>\<close>
  "rounded v = Math_round v"

datatype jsnum = Fin rat | PosInf | NegInf | NaN

definition js_div :: "rat \<Rightarrow> rat \<Rightarrow> jsnum" where
  \<comment> \<open>\<open>a / b\<close> on finite numbers; a zero divisor gives \<open>\<plusminus>Infinity\<close> or \<open>NaN\<close>.\<close>
  "js_div a b =
     (if b = 0 then (if 0 < a then PosInf else if a < 0 then NegInf else NaN)
      else Fin (ddiv a b))"

fun js_round :: "jsnum \<Rightarrow> jsnum" where
  "js_round (Fin v) = Fin (Math_round v)"
| "js_round PosInf = PosInf"
| "js_round NegInf = NegInf"
| "js_round NaN = NaN"

fun js_or_zero :: "jsnum \<Rightarrow> jsnum" where
  \<comment> \<open>\<open>x || 0\<close>: \<open>NaN\<close> and \<open>0\<close> are falsy.\<close>
  "js_or_zero NaN = Fin 0"
| "js_or_zero x = x"

fun js_neg :: "jsnum \<Rightarrow> jsnum" where
  "js_neg (Fin v) = Fin (- v)"
| "js_neg PosInf = NegInf"
| "js_neg NegInf = PosInf"
| "js_neg NaN = NaN"

fun js_add :: "jsnum \<Rightarrow> jsnum \<Rightarrow> jsnum" where
  "js_add (Fin a) (Fin b) = Fin (dadd a b)"
| "js_add NaN _ = NaN"
| "js_add _ NaN = NaN"
| "js_add PosInf NegInf = NaN"
| "js_add NegInf PosInf = NaN"
| "js_add PosInf _ = PosInf"
| "js_add NegInf _ = NegInf"
| "js_add _ PosInf = PosInf"
| "js_add _ NegInf = NegInf"

definition js_sub :: "jsnum \<Rightarrow> jsnum \<Rightarrow> jsnum" where
  "js_sub a b = js_add a (js_neg b)"

definition js_scale :: "jsnum \<Rightarrow> rat \<Rightarrow> jsnum" where
  \<comment> \<open>\<open>a * b\<close> with \<open>b\<close> finite: \<open>\<plusminus>Infinity * 0\<close> is \<open>NaN\<close>.\<close>
  "js_scale a b =
     (case a of
        Fin v \<Rightarrow> Fin (dmul v b)
      | NaN \<Rightarrow> NaN
      | PosInf \<Rightarrow> (if 0 < b then PosInf else if b < 0 then NegInf else NaN)
      | NegInf \<Rightarrow> (if 0 < b then NegInf else if b < 0 then PosInf else NaN))"

subsection \<open>Errors and promises\<close>

datatype error =
    UNEXPECTED_STATE string
  | INVALID_DATA string
  | TypeError
  | CollaboratorError string

definition await :: "error + 'a \<Rightarrow> ('a \<Rightarrow> error + 'b) \<Rightarrow> error + 'b" where
  "await m f = (case m of Inl e \<Rightarrow> Inl e | Inr v \<Rightarrow> f v)"

subsection \<open>Entities\<close>

text \<open>
  Only the fields the service reads.  A relation that the service tests for absence
  (\<open>tax_lines\<close> and \<open>adjustments\<close> of a line item, \<open>discounts\<close>, \<open>swaps\<close>,
  \<open>claims\<close>, the gift cards) is an \<open>option\<close>, \<open>None\<close> standing for \<open>undefined\<close>;
  \<open>items\<close>, \<open>shipping_methods\<close> and the tax lines of a shipping method are taken as
  loaded, as their declared types say.  The two kinds of tax line are one record: a
  shipping method tax line is one that has a \<open>shipping_method_id\<close>.
\<close>

datatype DiscountRuleType = FIXED | PERCENTAGE | FREE_SHIPPING

record discount =
  d_id :: string
  rule_type :: DiscountRuleType

record adjustment =
  discount_id :: "string option"
  amount :: rat

record tax_line =
  rate :: rat
  item_id :: "string option"
  shipping_method_id :: "string option"

record line_item =
  li_id :: string
  unit_price :: rat
  quantity :: rat
  allow_discounts :: bool
  includes_tax :: bool
  is_return :: bool
  tax_lines :: "tax_line list option"
  adjustments :: "adjustment list option"
  variant_id :: "string option"

record shipping_method =
  sm_id :: string
  price :: rat
  sm_includes_tax :: bool
  sm_tax_lines :: "tax_line list"

record swap =
  additional_items :: "line_item list"
  difference_due :: rat

record claim_order =
  claim_additional_items :: "line_item list"

record region =
  automatic_taxes :: bool
  gift_cards_taxable :: bool

typedecl gift_card
typedecl gift_card_transaction
typedecl address
typedecl customer

datatype object_kind = CartObject | OrderObject

record cart_or_order =
  object :: object_kind
  cart_type :: string
  items :: "line_item list"
  discounts :: "discount list option"
  gift_cards :: "gift_card list option"
  gift_card_transactions :: "gift_card_transaction list option"
  shipping_methods :: "shipping_method list"
  region :: region
  tax_rate :: "rat option"
  swaps :: "swap list option"
  claims :: "claim_order list option"
  refunds :: "rat list option"
  payments :: "rat list"
  shipping_address :: "address option"
  customer :: "customer option"

text \<open>
  Modelled from the spec: \<open>isCart\<close> and \<open>isOrder\<close> (imported from
  \<open>../types/cart\<close> and \<open>../types/orders\<close>, which are not part of the sources at
  hand).  The spec describes the argument as the union \<open>Cart | Order\<close> told apart by a
  run-time tag; the tag is the field \<open>object\<close>.
\<close>

definition isCart :: "cart_or_order \<Rightarrow> bool" where
  "isCart x = (object x = CartObject)"

definition isOrder :: "cart_or_order \<Rightarrow> bool" where
  "isOrder x = (object x = OrderObject)"

subsection \<open>Allocation map and calculation context\<close>

record line_discount =
  ld_amount :: rat
  unit_amount :: jsnum

record allocation =
  discount :: "line_discount option"

type_synonym LineAllocationsMap = "string \<rightharpoonup> allocation"

record TaxCalculationContext =
  ctx_shipping_address :: "address option"
  ctx_shipping_methods :: "shipping_method list"
  ctx_customer :: "customer option"
  ctx_region :: region
  ctx_is_return :: bool
  allocation_map :: LineAllocationsMap

record LineDiscountAmount =
  lda_item :: line_item
  lda_amount :: rat
  customAdjustmentsAmount :: rat

definition inherited_properties :: "string list" where
  \<comment> \<open>The property names every object inherits from \<open>Object.prototype\<close>.\<close>
  "inherited_properties =
     [''constructor'', ''__defineGetter__'', ''__defineSetter__'', ''hasOwnProperty'',
      ''__lookupGetter__'', ''__lookupSetter__'', ''isPrototypeOf'', ''propertyIsEnumerable'',
      ''toString'', ''valueOf'', ''__proto__'', ''toLocaleString'']"

definition empty_object :: LineAllocationsMap where
  \<comment> \<open>The object literal \<open>{}\<close> as \<open>allocationMap[id]\<close> reads it: an inherited name finds
      a truthy value that has no \<open>discount\<close>.  A write of \<open>discount\<close> to such a value
      goes to an object shared by the whole program; the model records it in the map and
      does not follow it further.\<close>
  "empty_object =
     (\<lambda>k. if k \<in> set inherited_properties then Some \<lparr> discount = None \<rparr> else None)"

definition sumAdjustments :: "adjustment list \<Rightarrow> rat" where
  \<comment> \<open>\<open>xs.reduce((total, adjustment) => total + adjustment.amount, 0)\<close>\<close>
  "sumAdjustments xs = foldl (\<lambda>acc a. dadd acc (amount a)) 0 xs"

definition merged_items :: "cart_or_order \<Rightarrow> line_item list" where
  \<comment> \<open>The order's items, then every swap's and every claim's additional items.\<close>
  "merged_items x =
     items x
     @ (case swaps x of None \<Rightarrow> [] | Some ss \<Rightarrow> concat (map additional_items ss))
     @ (case claims x of None \<Rightarrow> [] | Some cs \<Rightarrow> concat (map claim_additional_items cs))"

definition lineDiscountOf :: "discount option \<Rightarrow> line_item \<Rightarrow> LineDiscountAmount" where
  "lineDiscountOf disc item =
     (let adjs = (case adjustments item of None \<Rightarrow> [] | Some a \<Rightarrow> a);
          discountAdjustments =
            (case disc of
               None \<Rightarrow> []
             | Some d \<Rightarrow> filter (\<lambda>a. discount_id a = Some (d_id d)) adjs);
          customAdjustments = filter (\<lambda>a. discount_id a = None) adjs
      in \<lparr> lda_item = item,
           lda_amount = (if allow_discounts item then sumAdjustments discountAdjustments else 0),
           customAdjustmentsAmount = sumAdjustments customAdjustments \<rparr>)"

definition getLineDiscounts :: "cart_or_order \<Rightarrow> discount option \<Rightarrow> LineDiscountAmount list" where
  "getLineDiscounts x disc = map (lineDiscountOf disc) (merged_items x)"

definition allocate :: "LineAllocationsMap \<Rightarrow> LineDiscountAmount \<Rightarrow> LineAllocationsMap" where
  \<comment> \<open>One turn of the loop of \<open>getAllocationMap\<close>: only a fresh entry rounds
      \<open>unit_amount\<close>.\<close>
  "allocate m ld =
     (let adjustmentAmount = dadd (lda_amount ld) (customAdjustmentsAmount ld);
          k = li_id (lda_item ld)
      in case m k of
           Some a \<Rightarrow>
             m(k \<mapsto> a\<lparr> discount := Some \<lparr> ld_amount = adjustmentAmount,
                   unit_amount = js_div adjustmentAmount (quantity (lda_item ld)) \<rparr> \<rparr>)
         | None \<Rightarrow>
             m(k \<mapsto> \<lparr> discount = Some \<lparr> ld_amount = adjustmentAmount,
                   unit_amount = js_round (js_div adjustmentAmount (quantity (lda_item ld))) \<rparr> \<rparr>))"

definition first_allocating_discount :: "cart_or_order \<Rightarrow> discount option" where
  \<comment> \<open>\<open>discounts?.find(({ rule }) => rule.type !== FREE_SHIPPING)\<close>\<close>
  "first_allocating_discount x =
     (case discounts x of
        None \<Rightarrow> None
      | Some ds \<Rightarrow> find (\<lambda>d. rule_type d \<noteq> FREE_SHIPPING) ds)"

definition getAllocationMap :: "cart_or_order \<Rightarrow> bool \<Rightarrow> LineAllocationsMap" where
  \<comment> \<open>The second argument is \<open>options.exclude_discounts\<close>.\<close>
  "getAllocationMap x exclude_discounts =
     (if exclude_discounts then empty_object
      else foldl allocate empty_object (getLineDiscounts x (first_allocating_discount x)))"

definition getCalculationContext ::
  "cart_or_order \<Rightarrow> bool \<Rightarrow> bool \<Rightarrow> bool \<Rightarrow> TaxCalculationContext" where
  \<comment> \<open>The options are \<open>is_return\<close>, \<open>exclude_shipping\<close> and \<open>exclude_discounts\<close>.\<close>
  "getCalculationContext x opt_is_return exclude_shipping exclude_discounts =
     \<lparr> ctx_shipping_address = shipping_address x,
       ctx_shipping_methods = (if exclude_shipping then [] else shipping_methods x),
       ctx_customer = customer x,
       ctx_region = region x,
       ctx_is_return = opt_is_return,
       allocation_map = getAllocationMap x exclude_discounts \<rparr>"

subsection \<open>Collaborators\<close>

record gift_card_totals =
  gc_total :: rat
  gc_tax_total :: rat

text \<open>
  The services injected into the constructor, with the feature flag and the helper the
  service reads.  Each asynchronous collaborator may reject.  The helper
  \<open>calculatePriceTaxAmount({price, taxRate, includesTax})\<close> comes from \<open>../utils\<close>,
  which is not part of the sources at hand, and is a parameter here.
\<close>

record collaborators =
  getTaxLines :: "line_item list \<Rightarrow> TaxCalculationContext \<Rightarrow> error + tax_line list"
  calculate :: "line_item list \<Rightarrow> tax_line list \<Rightarrow> TaxCalculationContext \<Rightarrow> error + rat"
  getGiftCardTotals ::
    "rat \<Rightarrow> region \<Rightarrow> gift_card list \<Rightarrow> gift_card_transaction list \<Rightarrow> error + gift_card_totals"
  taxInclusivePricing :: bool
  calculatePriceTaxAmount :: "rat \<Rightarrow> rat \<Rightarrow> bool \<Rightarrow> rat"

subsection \<open>Shipping method totals\<close>

record ShippingMethodTotals =
  smt_price :: rat
  smt_tax_total :: rat
  smt_total :: rat
  smt_subtotal :: rat
  smt_original_total :: rat
  smt_original_tax_total :: rat
  smt_tax_lines :: "tax_line list"

record GetShippingMethodTotalsOptions =
  smo_include_tax :: bool
  smo_use_tax_lines :: bool
  smo_calculation_context :: "TaxCalculationContext option"

definition hasFreeShipping :: "cart_or_order \<Rightarrow> bool" where
  \<comment> \<open>\<open>discounts?.some((d) => d.rule.type === FREE_SHIPPING)\<close>\<close>
  "hasFreeShipping x =
     (case discounts x of
        None \<Rightarrow> False
      | Some ds \<Rightarrow> list_ex (\<lambda>d. rule_type d = FREE_SHIPPING) ds)"

definition legacy_tax_rate :: "cart_or_order \<Rightarrow> rat option" where
  \<comment> \<open>\<open>isOrder(cartOrOrder) && cartOrOrder.tax_rate != null\<close>: the rate of an order of
      the old tax system.\<close>
  "legacy_tax_rate x = (if isOrder x then tax_rate x else None)"

definition shipping_tax_lines ::
  "collaborators \<Rightarrow> shipping_method \<Rightarrow> cart_or_order \<Rightarrow> TaxCalculationContext \<Rightarrow>
   ShippingMethodTotals \<Rightarrow> error + ShippingMethodTotals" where
  \<comment> \<open>The first \<open>if\<close>/\<open>else if\<close> under \<open>opts.include_tax\<close>.\<close>
  "shipping_tax_lines c shippingMethod x ctx totals =
     (case legacy_tax_rate x of
        Some r \<Rightarrow>
          Inr (totals\<lparr> smt_original_tax_total := Math_round (dmul (smt_price totals) (ddiv r 100)),
                       smt_tax_total := Math_round (dmul (smt_price totals) (ddiv r 100)) \<rparr>)
      | None \<Rightarrow>
          if length (smt_tax_lines totals) = 0 then
            await (getTaxLines c (items x) ctx) (\<lambda>orderLines.
              let lines = filter (\<lambda>ol. shipping_method_id ol = Some (sm_id shippingMethod)) orderLines
              in if length lines = 0 \<and> isOrder x
                 then Inl (UNEXPECTED_STATE
                        ''Tax Lines must be joined on shipping method to calculate taxes'')
                 else Inr (totals\<lparr> smt_tax_lines := lines \<rparr>))
          else Inr totals)"

definition shipping_apply_tax ::
  "collaborators \<Rightarrow> shipping_method \<Rightarrow> TaxCalculationContext \<Rightarrow>
   ShippingMethodTotals \<Rightarrow> error + ShippingMethodTotals" where
  \<comment> \<open>The block \<open>if (totals.tax_lines.length > 0)\<close>.\<close>
  "shipping_apply_tax c shippingMethod ctx totals =
     (if length (smt_tax_lines totals) > 0 then
        (let includesTax = (taxInclusivePricing c \<and> sm_includes_tax shippingMethod)
         in await (calculate c [] (smt_tax_lines totals) ctx) (\<lambda>t.
              let totals1 = totals\<lparr> smt_original_tax_total := t, smt_tax_total := t \<rparr>
              in if includesTax
                 then Inr (totals1\<lparr>
                        smt_subtotal := dsub (smt_subtotal totals1) (smt_tax_total totals1) \<rparr>)
                 else Inr (totals1\<lparr>
                        smt_original_total :=
                          dadd (smt_original_total totals1) (smt_original_tax_total totals1),
                        smt_total := dadd (smt_total totals1) (smt_tax_total totals1) \<rparr>)))
      else Inr totals)"

definition shipping_context ::
  "cart_or_order \<Rightarrow> shipping_method \<Rightarrow> GetShippingMethodTotalsOptions \<Rightarrow> TaxCalculationContext" where
  \<comment> \<open>\<open>calculationContext\<close> of \<open>getShippingMethodTotals\<close>, after the assignment of
      \<open>shipping_methods\<close>.\<close>
  "shipping_context x shippingMethod opts =
     (case smo_calculation_context opts of
        Some k \<Rightarrow> k
      | None \<Rightarrow> getCalculationContext x False True False)
     \<lparr> ctx_shipping_methods := [shippingMethod] \<rparr>"

definition getShippingMethodTotals ::
  "collaborators \<Rightarrow> shipping_method \<Rightarrow> cart_or_order \<Rightarrow> GetShippingMethodTotalsOptions \<Rightarrow>
   error + ShippingMethodTotals" where
  \<comment> \<open>The assignment to \<open>calculationContext.shipping_methods\<close> also writes into a context
      passed by the caller; the service itself passes none.\<close>
  "getShippingMethodTotals c shippingMethod x opts =
     (let calculationContext = shipping_context x shippingMethod opts;
          totals = \<lparr> smt_price = price shippingMethod,
                     smt_tax_total = 0,
                     smt_total = price shippingMethod,
                     smt_subtotal = price shippingMethod,
                     smt_original_total = price shippingMethod,
                     smt_original_tax_total = 0,
                     smt_tax_lines = sm_tax_lines shippingMethod \<rparr>
      in await (if smo_include_tax opts
                then await (shipping_tax_lines c shippingMethod x calculationContext totals)
                       (shipping_apply_tax c shippingMethod calculationContext)
                else Inr totals) (\<lambda>totals.
           if hasFreeShipping x
           then Inr (totals\<lparr> smt_total := 0, smt_subtotal := 0, smt_tax_total := 0 \<rparr>)
           else Inr totals))"

fun getShippingTotal_loop ::
  "collaborators \<Rightarrow> cart_or_order \<Rightarrow> rat \<Rightarrow> shipping_method list \<Rightarrow> error + rat" where
  "getShippingTotal_loop c x acc [] = Inr acc"
| "getShippingTotal_loop c x acc (shippingMethod # rest) =
     await (getShippingMethodTotals c shippingMethod x
              \<lparr> smo_include_tax = True, smo_use_tax_lines = False, smo_calculation_context = None \<rparr>)
       (\<lambda>totals. getShippingTotal_loop c x (dadd acc (smt_subtotal totals)) rest)"

definition getShippingTotal :: "collaborators \<Rightarrow> cart_or_order \<Rightarrow> error + rat" where
  "getShippingTotal c x = getShippingTotal_loop c x 0 (shipping_methods x)"

subsection \<open>Line item totals\<close>

record LineItemTotals =
  lit_unit_price :: rat
  lit_quantity :: rat
  lit_subtotal :: rat
  lit_tax_total :: rat
  lit_total :: rat
  lit_original_total :: rat
  lit_original_tax_total :: rat
  lit_tax_lines :: "tax_line list option"
  lit_discount_total :: rat
  lit_raw_discount_total :: rat

record LineItemTotalsOptions =
  lio_include_tax :: bool
  lio_use_tax_lines :: bool
  lio_exclude_gift_cards :: bool
  lio_calculation_context :: "TaxCalculationContext option"

definition truthy :: "string option \<Rightarrow> bool" where
  \<comment> \<open>A string used as a condition: \<open>null\<close> and the empty string are falsy.\<close>
  "truthy v = (case v of None \<Rightarrow> False | Some s \<Rightarrow> s \<noteq> [])"

definition line_item_tax_lines ::
  "collaborators \<Rightarrow> line_item \<Rightarrow> cart_or_order \<Rightarrow> LineItemTotalsOptions \<Rightarrow>
   TaxCalculationContext \<Rightarrow> LineItemTotals \<Rightarrow> error + LineItemTotals" where
  \<comment> \<open>The block \<open>if (options.include_tax)\<close>: the backward compatible calculation of an
      order with a tax rate, or else the choice of the tax lines.\<close>
  "line_item_tax_lines c lineItem x opts ctx totals =
     (case legacy_tax_rate x of
        Some r \<Rightarrow>
          (let taxRate = ddiv r 100;
               includesTax = (taxInclusivePricing c \<and> includes_tax lineItem);
               taxIncludedInPrice =
                 (if \<not> includes_tax lineItem then 0
                  else Math_round (calculatePriceTaxAmount c (unit_price lineItem) taxRate includesTax));
               sub = dmul (dsub (unit_price lineItem) taxIncludedInPrice) (quantity lineItem);
               original_tax_total = dmul sub taxRate;
               tax_total = dmul (dsub sub (lit_discount_total totals)) taxRate
           in Inr (totals\<lparr> lit_subtotal := sub,
                             lit_original_tax_total := original_tax_total,
                             lit_tax_total := tax_total,
                             lit_total := dadd sub tax_total,
                             lit_original_total :=
                               dadd (lit_original_total totals) original_tax_total \<rparr>))
      | None \<Rightarrow>
          if lio_use_tax_lines opts \<or> isOrder x then
            (if tax_lines lineItem = None \<and> truthy (variant_id lineItem)
             then Inl (UNEXPECTED_STATE ''Tax Lines must be joined on items to calculate taxes'')
             else Inr (totals\<lparr> lit_tax_lines := tax_lines lineItem \<rparr>))
          else if is_return lineItem then
            (if tax_lines lineItem = None \<and> truthy (variant_id lineItem)
             then Inl (UNEXPECTED_STATE ''Return Line Items must join tax lines'')
             else Inr (totals\<lparr> lit_tax_lines := tax_lines lineItem \<rparr>))
          else
            await (getTaxLines c [lineItem] ctx)
              (\<lambda>taxLines. Inr (totals\<lparr> lit_tax_lines := Some taxLines \<rparr>)))"

definition line_item_apply_tax ::
  "collaborators \<Rightarrow> line_item \<Rightarrow> TaxCalculationContext \<Rightarrow> LineItemTotals \<Rightarrow>
   error + LineItemTotals" where
  \<comment> \<open>The block \<open>if (lineItemTotals.tax_lines.length > 0)\<close>, which stands after the
      block of \<open>options.include_tax\<close> and not inside it.  Reading \<open>length\<close> of
      \<open>undefined\<close> throws a \<open>TypeError\<close>.\<close>
  "line_item_apply_tax c lineItem ctx totals =
     (case lit_tax_lines totals of
        None \<Rightarrow> Inl TypeError
      | Some tls \<Rightarrow>
          if length tls > 0 then
            await (calculate c [lineItem] tls ctx) (\<lambda>t.
            await (calculate c [lineItem] tls (ctx\<lparr> allocation_map := empty_object \<rparr>)) (\<lambda>ot.
              let totals1 = totals\<lparr> lit_tax_total := t, lit_original_tax_total := ot \<rparr>;
                  totals2 =
                    (if taxInclusivePricing c \<and> includes_tax lineItem then
                       (let sub = dadd (lit_subtotal totals1)
                                    (dsub (dmul (unit_price lineItem) (quantity lineItem))
                                       (lit_original_tax_total totals1))
                        in totals1\<lparr> lit_subtotal := sub,
                                     lit_total := dadd (lit_total totals1) sub,
                                     lit_original_total := dadd (lit_original_total totals1) sub \<rparr>)
                     else totals1)
              in Inr (totals2\<lparr>
                   lit_total := dadd (lit_total totals2) (lit_tax_total totals2),
                   lit_original_total :=
                     dadd (lit_original_total totals2) (lit_original_tax_total totals2) \<rparr>)))
          else Inr totals)"

definition getLineItemTotals ::
  "collaborators \<Rightarrow> line_item \<Rightarrow> cart_or_order \<Rightarrow> LineItemTotalsOptions \<Rightarrow>
   error + LineItemTotals" where
  \<comment> \<open>\<open>getCalculationContext\<close> also receives \<open>exclude_gift_cards\<close>, which neither it nor
      \<open>getAllocationMap\<close> reads.\<close>
  "getLineItemTotals c lineItem x opts =
     (let calculationContext =
            (case lio_calculation_context opts of
               Some k \<Rightarrow> k
             | None \<Rightarrow> getCalculationContext x False True False);
          raw_discount_total =
            (case allocation_map calculationContext (li_id lineItem) of
               None \<Rightarrow> 0
             | Some a \<Rightarrow> (case discount a of None \<Rightarrow> 0 | Some d \<Rightarrow> ld_amount d));
          subtotal =
            (if taxInclusivePricing c \<and> includes_tax lineItem \<and> lio_include_tax opts then 0
             else dmul (unit_price lineItem) (quantity lineItem));
          discount_total = Math_round raw_discount_total;
          lineItemTotals =
            \<lparr> lit_unit_price = unit_price lineItem,
              lit_quantity = quantity lineItem,
              lit_subtotal = subtotal,
              lit_tax_total = 0,
              lit_total = dsub subtotal discount_total,
              lit_original_total = subtotal,
              lit_original_tax_total = 0,
              lit_tax_lines = Some (case tax_lines lineItem of None \<Rightarrow> [] | Some tls \<Rightarrow> tls),
              lit_discount_total = discount_total,
              lit_raw_discount_total = raw_discount_total \<rparr>
      in await (if lio_include_tax opts
                then line_item_tax_lines c lineItem x opts calculationContext lineItemTotals
                else Inr lineItemTotals)
           (line_item_apply_tax c lineItem calculationContext))"

subsection \<open>Subtotal, discount total, gift card total\<close>

definition getLineItemSubtotal :: "collaborators \<Rightarrow> cart_or_order \<Rightarrow> line_item \<Rightarrow> error + rat" where
  "getLineItemSubtotal c x item =
     await (getLineItemTotals c item x
              \<lparr> lio_include_tax = True, lio_use_tax_lines = False,
                lio_exclude_gift_cards = True, lio_calculation_context = None \<rparr>)
       (\<lambda>totals. Inr (lit_subtotal totals))"

fun getSubtotal_loop ::
  "collaborators \<Rightarrow> cart_or_order \<Rightarrow> bool \<Rightarrow> rat \<Rightarrow> line_item list \<Rightarrow> error + rat" where
  "getSubtotal_loop c x excludeNonDiscounts subtotal [] = Inr subtotal"
| "getSubtotal_loop c x excludeNonDiscounts subtotal (item # rest) =
     (if excludeNonDiscounts then
        (if allow_discounts item then
           await (getLineItemSubtotal c x item)
             (\<lambda>s. getSubtotal_loop c x excludeNonDiscounts (dadd subtotal s) rest)
         else getSubtotal_loop c x excludeNonDiscounts subtotal rest)
      else
        await (getLineItemSubtotal c x item)
          (\<lambda>s. getSubtotal_loop c x excludeNonDiscounts (dadd subtotal s) rest))"

definition getSubtotal :: "collaborators \<Rightarrow> cart_or_order \<Rightarrow> bool \<Rightarrow> error + rat" where
  \<comment> \<open>The third argument is \<open>opts.excludeNonDiscounts\<close>.\<close>
  "getSubtotal c x excludeNonDiscounts =
     await (getSubtotal_loop c x excludeNonDiscounts 0 (items x)) (\<lambda>subtotal. Inr (rounded subtotal))"

definition getLineItemAdjustmentsTotal :: "cart_or_order \<Rightarrow> rat" where
  \<comment> \<open>\<open>total + item.adjustments?.reduce(...) || 0\<close> parses as \<open>(total + ...) || 0\<close>: with
      \<open>adjustments\<close> undefined the sum is \<open>NaN\<close> and the accumulator restarts at 0.\<close>
  "getLineItemAdjustmentsTotal x =
     (if length (items x) = 0 then 0
      else foldl (\<lambda>acc item.
                    case adjustments item of
                      None \<Rightarrow> 0
                    | Some adjs \<Rightarrow>
                        (let v = dadd acc (sumAdjustments adjs) in if v = 0 then 0 else v))
             0 (items x))"

definition getDiscountTotal :: "collaborators \<Rightarrow> cart_or_order \<Rightarrow> error + rat" where
  "getDiscountTotal c x =
     await (getSubtotal c x True) (\<lambda>subtotal.
       let discountTotal = Math_round (getLineItemAdjustmentsTotal x)
       in if subtotal < 0 then Inr (rounded (max subtotal discountTotal))
          else Inr (rounded (min subtotal discountTotal)))"

definition getGiftCardTotal ::
  "collaborators \<Rightarrow> cart_or_order \<Rightarrow> rat option \<Rightarrow> error + gift_card_totals" where
  \<comment> \<open>The third argument is \<open>opts.gift_cardable\<close>.\<close>
  "getGiftCardTotal c x gift_cardable =
     await (case gift_cardable of
              Some g \<Rightarrow> Inr g
            | None \<Rightarrow>
                await (getSubtotal c x False) (\<lambda>subtotal.
                await (getDiscountTotal c x) (\<lambda>discountTotal.
                  Inr (dsub subtotal discountTotal))))
       (\<lambda>giftCardable.
          getGiftCardTotals c giftCardable (region x)
            (case gift_cards x of None \<Rightarrow> [] | Some g \<Rightarrow> g)
            (case gift_card_transactions x of None \<Rightarrow> [] | Some t \<Rightarrow> t))"

subsection \<open>Tax total and total\<close>

fun returnTaxLines :: "line_item list \<Rightarrow> error + tax_line list" where
  \<comment> \<open>The \<open>flatMap\<close> over the items of a swap cart.\<close>
  "returnTaxLines [] = Inr []"
| "returnTaxLines (i # rest) =
     (if is_return i then
        (case tax_lines i of
           None \<Rightarrow> Inl (UNEXPECTED_STATE ''Return Line Items must join tax lines'')
         | Some tls \<Rightarrow> await (returnTaxLines rest) (\<lambda>r. Inr (tls @ r)))
      else returnTaxLines rest)"

definition calculate_tax_total ::
  "collaborators \<Rightarrow> cart_or_order \<Rightarrow> TaxCalculationContext \<Rightarrow> gift_card_totals \<Rightarrow>
   tax_line list \<Rightarrow> error + rat option" where
  \<comment> \<open>The end of \<open>getTaxTotal\<close>, from \<open>const toReturn = ...\<close> on.\<close>
  "calculate_tax_total c x ctx giftCardTotal taxLines =
     await (calculate c (items x) taxLines ctx) (\<lambda>toReturn.
       if gift_cards_taxable (region x)
       then Inr (Some (rounded (dsub toReturn (gc_tax_total giftCardTotal))))
       else Inr (Some (rounded toReturn)))"

definition getTaxTotal :: "collaborators \<Rightarrow> cart_or_order \<Rightarrow> bool \<Rightarrow> error + rat option" where
  \<comment> \<open>\<open>None\<close> is the result \<open>null\<close>.\<close>
  "getTaxTotal c x forceTaxes =
     (if isCart x \<and> \<not> forceTaxes \<and> \<not> automatic_taxes (region x) then Inr None
      else
        (let calculationContext = getCalculationContext x False False False
         in await (getGiftCardTotal c x None) (\<lambda>giftCardTotal.
              if isOrder x then
                (if \<not> list_all (\<lambda>i. tax_lines i \<noteq> None) (items x) then
                   Inl (UNEXPECTED_STATE
                          ''Order tax calculations must have tax lines joined on line items'')
                 else
                   (case tax_rate x of
                      None \<Rightarrow>
                        calculate_tax_total c x calculationContext giftCardTotal
                          (concat (map (\<lambda>li. case tax_lines li of None \<Rightarrow> [] | Some tls \<Rightarrow> tls)
                                     (items x))
                           @ concat (map sm_tax_lines (shipping_methods x)))
                    | Some r \<Rightarrow>
                        await (getSubtotal c x False) (\<lambda>subtotal.
                        await (getShippingTotal c x) (\<lambda>shippingTotal.
                        await (getDiscountTotal c x) (\<lambda>discountTotal.
                          Inr (Some (rounded
                            (dmul (dadd (dsub (dsub subtotal discountTotal)
                                           (gc_total giftCardTotal))
                                     shippingTotal)
                               (ddiv r 100)))))))))
              else
                await (getTaxLines c (items x) calculationContext) (\<lambda>taxLines.
                  if cart_type x = ''swap'' then
                    await (returnTaxLines (items x)) (\<lambda>rtl.
                      calculate_tax_total c x calculationContext giftCardTotal (taxLines @ rtl))
                  else calculate_tax_total c x calculationContext giftCardTotal taxLines))))"



subsection \<open>Refunds\<close>

definition unit_discount :: "LineAllocationsMap \<Rightarrow> line_item \<Rightarrow> jsnum" where
  \<comment> \<open>\<open>allocationMap[lineItem.id]?.discount?.unit_amount || 0\<close>\<close>
  "unit_discount m lineItem =
     (case m (li_id lineItem) of
        None \<Rightarrow> Fin 0
      | Some a \<Rightarrow> (case discount a of None \<Rightarrow> Fin 0 | Some d \<Rightarrow> js_or_zero (unit_amount d)))"

definition getLineItemRefund :: "collaborators \<Rightarrow> cart_or_order \<Rightarrow> line_item \<Rightarrow> error + jsnum" where
  "getLineItemRefund c order lineItem =
     (let allocationMap = getAllocationMap order False;
          includesTax = (taxInclusivePricing c \<and> includes_tax lineItem);
          discountAmount = js_scale (unit_discount allocationMap lineItem) (quantity lineItem)
      in case tax_rate order of
           Some r \<Rightarrow>
             (let taxAmountIncludedInPrice =
                    (if \<not> includesTax then 0
                     else Math_round
                            (calculatePriceTaxAmount c (unit_price lineItem) (ddiv r 100)
                               includesTax));
                  lineSubtotal =
                    js_sub (Fin (dmul (dsub (unit_price lineItem) taxAmountIncludedInPrice)
                                   (quantity lineItem)))
                      discountAmount;
                  taxRate = ddiv r 100
              in Inr (js_round (js_scale lineSubtotal (dadd 1 taxRate))))
         | None \<Rightarrow>
             (case tax_lines lineItem of
                None \<Rightarrow> Inl (UNEXPECTED_STATE ''Tax calculation did not receive tax_lines'')
              | Some tls \<Rightarrow>
                  (let taxRate = foldl (\<lambda>acc next. dadd acc (ddiv (rate next) 100)) 0 tls;
                       taxAmountIncludedInPrice =
                         (if \<not> includesTax then 0
                          else Math_round
                                 (calculatePriceTaxAmount c (unit_price lineItem) taxRate includesTax));
                       lineSubtotal =
                         js_sub (Fin (dmul (dsub (unit_price lineItem) taxAmountIncludedInPrice)
                                        (quantity lineItem)))
                           discountAmount;
                       taxTotal =
                         foldl (\<lambda>acc next.
                                  js_add acc
                                    (js_round (js_scale lineSubtotal (ddiv (rate next) 100))))
                           (Fin 0) tls
                   in Inr (js_add lineSubtotal taxTotal))))"

definition refundable_ids :: "cart_or_order \<Rightarrow> string list" where
  \<comment> \<open>\<open>itemIds\<close>: the ids of the order's items, of every swap's and of every claim's
      additional items.\<close>
  "refundable_ids order =
     map li_id (items order)
     @ (case swaps order of
          None \<Rightarrow> []
        | Some ss \<Rightarrow> concat (map (\<lambda>s. map li_id (additional_items s)) ss))
     @ (case claims order of
          None \<Rightarrow> []
        | Some cs \<Rightarrow> concat (map (\<lambda>k. map li_id (claim_additional_items k)) cs))"

fun getRefundTotal_loop ::
  "collaborators \<Rightarrow> cart_or_order \<Rightarrow> string list \<Rightarrow> jsnum list \<Rightarrow> line_item list \<Rightarrow>
   error + jsnum list" where
  "getRefundTotal_loop c order itemIds acc [] = Inr acc"
| "getRefundTotal_loop c order itemIds acc (item # rest) =
     (if li_id item \<notin> set itemIds
      then Inl (INVALID_DATA ''Line item does not exist on order'')
      else await (getLineItemRefund c order item)
             (\<lambda>refund. getRefundTotal_loop c order itemIds (acc @ [refund]) rest))"

definition getRefundTotal :: "collaborators \<Rightarrow> cart_or_order \<Rightarrow> line_item list \<Rightarrow> error + jsnum" where
  "getRefundTotal c order lineItems =
     await (getRefundTotal_loop c order (refundable_ids order) [] lineItems)
       (\<lambda>rs. Inr (js_round (foldl js_add (Fin 0) rs)))"

subsection \<open>Concrete collaborators, carts and orders\<close>

text \<open>
  Inputs on which the theorems below are instantiated.  The stub collaborators find no
  tax lines, compute no tax and redeem no gift card; the price helper is the usual
  back-out of a tax included in a price.
\<close>

definition stub_collaborators :: collaborators where
  "stub_collaborators =
     \<lparr> getTaxLines = (\<lambda>_ _. Inr []),
       calculate = (\<lambda>_ _ _. Inr 0),
       getGiftCardTotals = (\<lambda>_ _ _ _. Inr \<lparr> gc_total = 0, gc_tax_total = 0 \<rparr>),
       taxInclusivePricing = False,
       calculatePriceTaxAmount =
         (\<lambda>p r i. if i then ddiv (dmul r p) (dadd 1 r) else dmul p r) \<rparr>"

definition discounted_item :: line_item where
  "discounted_item =
     \<lparr> li_id = ''item_1'', unit_price = 1000, quantity = 1, allow_discounts = True,
       includes_tax = False, is_return = False, tax_lines = Some [],
       adjustments = Some [\<lparr> discount_id = Some ''disc_1'', amount = 100 \<rparr>],
       variant_id = Some ''variant_1'' \<rparr>"

definition plain_shipping_method :: shipping_method where
  "plain_shipping_method =
     \<lparr> sm_id = ''sm_1'', price = 50, sm_includes_tax = False, sm_tax_lines = [] \<rparr>"

definition legacy_order :: cart_or_order where
  \<comment> \<open>Subtotal 1000, discount 100, shipping 50, no gift card, \<open>tax_rate\<close> 25.\<close>
  "legacy_order =
     \<lparr> object = OrderObject, cart_type = ''default'', items = [discounted_item],
       discounts = Some [\<lparr> d_id = ''disc_1'', rule_type = PERCENTAGE \<rparr>],
       gift_cards = None, gift_card_transactions = None,
       shipping_methods = [plain_shipping_method],
       region = \<lparr> automatic_taxes = True, gift_cards_taxable = False \<rparr>,
       tax_rate = Some 25, swaps = None, claims = None, refunds = None, payments = [],
       shipping_address = None, customer = None \<rparr>"


definition swap_cart :: cart_or_order where
  \<comment> \<open>The cart of a swap: a returned item at a negative price and a new, discounted item.\<close>
  "swap_cart =
     \<lparr> object = CartObject, cart_type = ''swap'',
       items =
         [\<lparr> li_id = ''item_r'', unit_price = - 1000, quantity = 1, allow_discounts = True,
            includes_tax = False, is_return = True, tax_lines = Some [],
            adjustments = Some [], variant_id = Some ''variant_1'' \<rparr>,
          \<lparr> li_id = ''item_n'', unit_price = 200, quantity = 1, allow_discounts = True,
            includes_tax = False, is_return = False, tax_lines = Some [],
            adjustments = Some [\<lparr> discount_id = Some ''disc_1'', amount = 100 \<rparr>],
            variant_id = Some ''variant_2'' \<rparr>],
       discounts = Some [\<lparr> d_id = ''disc_1'', rule_type = FIXED \<rparr>],
       gift_cards = None, gift_card_transactions = None,
       shipping_methods = [],
       region = \<lparr> automatic_taxes = True, gift_cards_taxable = False \<rparr>,
       tax_rate = None, swaps = None, claims = None, refunds = None, payments = [],
       shipping_address = None, customer = None \<rparr>"

definition legacy_order_unjoined :: cart_or_order where
  \<comment> \<open>The same order, loaded without the tax lines of its item.\<close>
  "legacy_order_unjoined = legacy_order\<lparr> items := [discounted_item\<lparr> tax_lines := None \<rparr>] \<rparr>"

definition new_order_unjoined :: cart_or_order where
  \<comment> \<open>An order of the new tax system, loaded without the tax lines of its item.\<close>
  "new_order_unjoined = legacy_order_unjoined\<lparr> tax_rate := None \<rparr>"

definition taxed_shipping_method :: shipping_method where
  "taxed_shipping_method =
     \<lparr> sm_id = ''sm_2'', price = 500, sm_includes_tax = False,
       sm_tax_lines = [\<lparr> rate = 10, item_id = None, shipping_method_id = Some ''sm_2'' \<rparr>] \<rparr>"

definition free_shipping_cart :: cart_or_order where
  "free_shipping_cart =
     swap_cart\<lparr> cart_type := ''default'',
       discounts := Some [\<lparr> d_id = ''disc_fs'', rule_type = FREE_SHIPPING \<rparr>],
       shipping_methods := [taxed_shipping_method] \<rparr>"

definition free_shipping_order :: cart_or_order where
  \<comment> \<open>An order of the new tax system whose shipping method has no tax lines.\<close>
  "free_shipping_order =
     legacy_order\<lparr> tax_rate := None,
       discounts := Some [\<lparr> d_id = ''disc_fs'', rule_type = FREE_SHIPPING \<rparr>] \<rparr>"

definition with_tax :: GetShippingMethodTotalsOptions where
  "with_tax =
     \<lparr> smo_include_tax = True, smo_use_tax_lines = False, smo_calculation_context = None \<rparr>"

definition flat_tax_collaborators :: "rat \<Rightarrow> collaborators" where
  \<comment> \<open>A strategy that answers every request with the same amount.\<close>
  "flat_tax_collaborators k = stub_collaborators\<lparr> calculate := (\<lambda>_ _ _. Inr k) \<rparr>"



definition stranger_item :: line_item where
  "stranger_item = discounted_item\<lparr> li_id := ''item_9'' \<rparr>"

definition two_rate_item :: line_item where
  "two_rate_item =
     \<lparr> li_id = ''item_2'', unit_price = 1010, quantity = 1, allow_discounts = True,
       includes_tax = False, is_return = False,
       tax_lines =
         Some [\<lparr> rate = 5, item_id = Some ''item_2'', shipping_method_id = None \<rparr>,
               \<lparr> rate = 5, item_id = Some ''item_2'', shipping_method_id = None \<rparr>],
       adjustments = Some [\<lparr> discount_id = Some ''disc_1'', amount = 100 \<rparr>],
       variant_id = Some ''variant_2'' \<rparr>"

definition new_order :: cart_or_order where
  \<comment> \<open>An order of the new tax system.\<close>
  "new_order = legacy_order\<lparr> tax_rate := None, items := [discounted_item, two_rate_item] \<rparr>"

definition small_legacy_order :: cart_or_order where
  \<comment> \<open>Subtotal 90, no discount, no shipping, \<open>tax_rate\<close> 35.\<close>
  "small_legacy_order =
     legacy_order\<lparr> tax_rate := Some 35, shipping_methods := [], discounts := None,
       items := [discounted_item\<lparr> unit_price := 90, adjustments := Some [] \<rparr>] \<rparr>"

definition small_taxed_item :: line_item where
  "small_taxed_item =
     \<lparr> li_id = ''item_4'', unit_price = 90, quantity = 1, allow_discounts = True,
       includes_tax = False, is_return = False,
       tax_lines = Some [\<lparr> rate = 35, item_id = Some ''item_4'', shipping_method_id = None \<rparr>],
       adjustments = Some [], variant_id = Some ''variant_4'' \<rparr>"

definition half_item :: line_item where
  "half_item =
     \<lparr> li_id = ''item_3'', unit_price = 300, quantity = 2, allow_discounts = True,
       includes_tax = False, is_return = False, tax_lines = Some [],
       adjustments = Some [\<lparr> discount_id = None, amount = 1 \<rparr>],
       variant_id = Some ''variant_3'' \<rparr>"

definition order_with_repeated_item :: cart_or_order where
  "order_with_repeated_item = legacy_order\<lparr> items := [half_item, half_item] \<rparr>"

section \<open>Properties\<close>

subsection \<open>Doubles\<close>

text \<open>
  An integer below \<open>2^53\<close> in magnitude is a double, and rounding leaves it as it is.
  The evaluation of \<open>rnd64\<close> uses this as a shortcut.
\<close>

lemma bit_length_le: "m < 2 ^ k \<Longrightarrow> bit_length m \<le> k"
proof (induction k arbitrary: m)
  case 0
  then show ?case by (simp add: bit_length.simps)
next
  case (Suc k)
  have "m div 2 < 2 ^ k" using Suc.prems by auto
  from Suc.IH [OF this] show ?case by (subst bit_length.simps) simp
qed

lemma bit_length_pos: "0 < m \<Longrightarrow> 1 \<le> bit_length m"
  by (subst bit_length.simps) simp

lemma round_half_even_of_int: "round_half_even (of_int m) = m"
  by (simp add: round_half_even_def)

lemma rnd64_of_int:
  assumes "\<bar>n\<bar> < 2 ^ 53"
  shows "rnd64 (of_int n) = of_int n"
proof (cases "n = 0")
  case True
  then show ?thesis by (simp add: rnd64_def)
next
  case False
  define b where "b = bit_length (nat \<bar>n\<bar>)"
  have "nat \<bar>n\<bar> < 2 ^ 53"
    using assms by (simp add: nat_less_iff)
  then have b53: "b \<le> 53"
    unfolding b_def by (rule bit_length_le)
  have b1: "1 \<le> b"
    unfolding b_def using False by (intro bit_length_pos) simp
  have one: "(1::rat) \<le> \<bar>of_int n\<bar>"
    using False by (metis abs_ge_zero of_int_1_le_iff of_int_abs zero_less_abs_iff zless_imp_add1_zle add_0 linorder_not_le not_less_iff_gr_or_eq)
  have fl: "nat \<lfloor>\<bar>(of_int n :: rat)\<bar>\<rfloor> = nat \<bar>n\<bar>"
    by (metis floor_of_int of_int_abs)
  have bin: "binade (of_int n) = int b - 1"
    using one by (simp add: binade_def Let_def fl b_def)
  have e: "max (int b - 1) (- 1022) = int b - 1"
    using b1 by simp
  have q: "pow2 (int b - 1 - 52) = 1 / 2 ^ (53 - b)"
  proof (cases "b = 53")
    case True
    then show ?thesis by (simp add: pow2_def)
  next
    case False
    with b53 have "b < 53" by simp
    then have "nat (- (int b - 1 - 52)) = 53 - b" by simp
    with \<open>b < 53\<close> show ?thesis by (simp add: pow2_def)
  qed
  have scaled: "of_int n / (1 / 2 ^ (53 - b)) = (of_int (n * 2 ^ (53 - b)) :: rat)"
    by simp
  have "rnd64 (of_int n)
        = of_int (round_half_even (of_int n / pow2 (int b - 1 - 52))) * pow2 (int b - 1 - 52)"
    using False unfolding rnd64_def Let_def bin e by simp
  also have "\<dots> = of_int (round_half_even (of_int (n * 2 ^ (53 - b)))) * (1 / 2 ^ (53 - b))"
    unfolding q scaled ..
  also have "\<dots> = of_int (n * 2 ^ (53 - b)) * (1 / 2 ^ (53 - b))"
    unfolding round_half_even_of_int ..
  also have "\<dots> = of_int n"
    by simp
  finally show ?thesis .
qed

lemma rnd64_code [code]:
  "rnd64 x =
     (if of_int \<lfloor>x\<rfloor> = x \<and> \<bar>x\<bar> < 9007199254740992 then x
      else if x = 0 then 0
      else (let e = max (binade x) (- 1022); q = pow2 (e - 52)
            in of_int (round_half_even (x / q)) * q))"
proof (cases "of_int \<lfloor>x\<rfloor> = x \<and> \<bar>x\<bar> < 9007199254740992")
  case True
  then obtain m :: int where m: "x = of_int m"
    by metis
  from True have "\<bar>x\<bar> < 9007199254740992"
    by blast
  then have "(of_int \<bar>m\<bar> :: rat) < of_int 9007199254740992"
    unfolding m by simp
  then have "\<bar>m\<bar> < 9007199254740992"
    by (simp only: of_int_less_iff)
  then have "\<bar>m\<bar> < 2 ^ 53"
    by simp
  from rnd64_of_int [OF this] True show ?thesis
    unfolding m by simp
next
  case False
  show ?thesis
    by (subst if_not_P [OF False]) (simp only: rnd64_def)
qed

subsection \<open>Promises and rounding\<close>

lemma await_Inr_iff: "await m f = Inr v \<longleftrightarrow> (\<exists>a. m = Inr a \<and> f a = Inr v)"
  by (cases m) (simp_all add: await_def)

lemma await_Inr [simp]: "await (Inr a) f = f a"
  by (simp add: await_def)

lemma await_Inl [simp]: "await (Inl e) f = Inl e"
  by (simp add: await_def)

lemma rounded_of_int [simp]: "rounded (of_int n) = of_int n"
  unfolding rounded_def Math_round_def by simp linarith

lemma Math_round_of_int [simp]: "Math_round (of_int n) = of_int n"
  unfolding Math_round_def by simp linarith

lemma getSubtotal_integral: "getSubtotal c x e = Inr s \<Longrightarrow> \<exists>n::int. s = of_int n"
  by (auto simp: getSubtotal_def await_Inr_iff rounded_def Math_round_def)

subsection \<open>The total\<close>



subsection \<open>Rounding\<close>

text \<open>
  C3, as stated, fails: \<open>rounded\<close> is \<open>Math.round\<close>, which sends a tie towards
  \<open>+\<infinity>\<close>, so \<open>rounded(-2.5)\<close> is \<open>-2\<close> and not \<open>-3\<close>.
\<close>

theorem rounded_half_away_counterexample:
  "rounded (- 5 / 2) = - 2 \<and> rounded (- 5 / 2) \<noteq> - 3"
  by code_simp

text \<open>
  C3, amended.  For every (possibly negative, possibly fractional) value,
  \<open>rounded(value)\<close> is the nearest integer, a tie going to the larger neighbour: it is the
  integer in the interval from \<open>value - 1/2\<close> (excluded) to \<open>value + 1/2\<close> (included).
  So \<open>rounded(2.5) = 3\<close> and \<open>rounded(-2.5) = -2\<close>.
\<close>

theorem rounded_nearest_ties_up:
  "(\<exists>n::int. rounded v = of_int n) \<and> v - 1 / 2 < rounded v \<and> rounded v \<le> v + 1 / 2
   \<and> (\<forall>n::int. rounded (of_int n + 1 / 2) = of_int n + 1)
   \<and> rounded (5 / 2) = 3 \<and> rounded (- 5 / 2) = - 2"
proof -
  have a: "\<exists>n::int. rounded v = of_int n"
    by (auto simp: rounded_def Math_round_def)
  have b: "v - 1 / 2 < rounded v"
    unfolding rounded_def Math_round_def by linarith
  have c: "rounded v \<le> v + 1 / 2"
    unfolding rounded_def Math_round_def by linarith
  have d: "\<forall>n::int. rounded (of_int n + 1 / 2) = of_int n + 1"
    unfolding rounded_def Math_round_def by simp
  have e: "rounded (5 / 2) = 3" "rounded (- 5 / 2) = - 2"
    by code_simp+
  from a b c d e show ?thesis by blast
qed

subsection \<open>The discount total\<close>

text \<open>
  C4, as stated, fails: on the cart of a swap the discountable subtotal is negative
  (\<open>-800\<close>) while the adjustments sum to \<open>100\<close>; \<open>Math.max\<close> then returns the
  adjustments' sum, of the opposite sign.
\<close>

theorem getDiscountTotal_clamp_counterexample:
  "getSubtotal stub_collaborators swap_cart True = Inr (- 800) \<and>
   getDiscountTotal stub_collaborators swap_cart = Inr 100"
  by code_simp

text \<open>
  C4, amended.  Let \<open>s\<close> be the discountable subtotal
  \<open>getSubtotal(x, {excludeNonDiscounts: true})\<close> and \<open>D\<close> the rounded sum of the line
  item adjustments.  When \<open>s \<ge> 0\<close> and \<open>D \<ge> 0\<close>, or \<open>s < 0\<close> and \<open>D \<le> 0\<close>, the
  discount total has magnitude at most \<open>|s|\<close> and is zero or of the sign of \<open>s\<close>.
\<close>

theorem getDiscountTotal_clamp:
  assumes "getSubtotal c x True = Inr s"
    and "(0 \<le> s \<and> 0 \<le> Math_round (getLineItemAdjustmentsTotal x))
         \<or> (s < 0 \<and> Math_round (getLineItemAdjustmentsTotal x) \<le> 0)"
  shows "\<exists>v. getDiscountTotal c x = Inr v \<and> \<bar>v\<bar> \<le> \<bar>s\<bar>
           \<and> (v = 0 \<or> (0 < v \<and> 0 < s) \<or> (v < 0 \<and> s < 0))"
proof -
  obtain n :: int where n: "s = of_int n"
    using getSubtotal_integral [OF assms(1)] by blast
  obtain m :: int where m: "Math_round (getLineItemAdjustmentsTotal x) = of_int m"
    by (auto simp: Math_round_def)
  have mx: "max (of_int n) (of_int m) = (of_int (max n m) :: rat)"
    by (simp add: max_def)
  have mn: "min (of_int n) (of_int m) = (of_int (min n m) :: rat)"
    by (simp add: min_def)
  show ?thesis
    using assms(2)
    unfolding getDiscountTotal_def assms(1) await_Inr Let_def n m mx mn rounded_of_int
    by (auto simp: max_def min_def)
qed

theorem getDiscountTotal_clamp_witness:
  "getSubtotal stub_collaborators legacy_order True = Inr 1000 \<and>
   Math_round (getLineItemAdjustmentsTotal legacy_order) = 100 \<and>
   (\<exists>v. getDiscountTotal stub_collaborators legacy_order = Inr v \<and> \<bar>v\<bar> \<le> \<bar>1000\<bar>
         \<and> (v = 0 \<or> (0 < v \<and> 0 < (1000 :: rat)) \<or> (v < 0 \<and> (1000 :: rat) < 0)))"
proof -
  have s: "getSubtotal stub_collaborators legacy_order True = Inr 1000"
    by code_simp
  have d: "Math_round (getLineItemAdjustmentsTotal legacy_order) = 100"
    by code_simp
  have h: "(0 \<le> (1000 :: rat) \<and> 0 \<le> Math_round (getLineItemAdjustmentsTotal legacy_order))
           \<or> ((1000 :: rat) < 0 \<and> Math_round (getLineItemAdjustmentsTotal legacy_order) \<le> 0)"
    unfolding d by simp
  from getDiscountTotal_clamp [OF s h] s d show ?thesis by blast
qed

subsection \<open>The tax total of an order\<close>

lemma order_not_cart: "isOrder x \<Longrightarrow> \<not> isCart x"
  by (simp add: isOrder_def isCart_def)

text \<open>
  C2, as stated, fails: the legacy order below has \<open>tax_rate\<close> 25, subtotal 1000,
  discount 100, shipping 50 and no gift card, but its item was loaded without tax lines,
  and \<open>getTaxTotal\<close> rejects instead of returning 238.
\<close>

theorem getTaxTotal_legacy_counterexample:
  "isOrder legacy_order_unjoined \<and> tax_rate legacy_order_unjoined = Some 25 \<and>
   getSubtotal stub_collaborators legacy_order_unjoined False = Inr 1000 \<and>
   getDiscountTotal stub_collaborators legacy_order_unjoined = Inr 100 \<and>
   getGiftCardTotal stub_collaborators legacy_order_unjoined None
     = Inr \<lparr> gc_total = 0, gc_tax_total = 0 \<rparr> \<and>
   getShippingTotal stub_collaborators legacy_order_unjoined = Inr 50 \<and>
   getTaxTotal stub_collaborators legacy_order_unjoined False
     = Inl (UNEXPECTED_STATE ''Order tax calculations must have tax lines joined on line items'')"
  by code_simp

text \<open>
  C2, amended.  For every order whose \<open>tax_rate\<close> is non-null and whose line items all
  have \<open>tax_lines\<close> defined, \<open>getTaxTotal\<close> returns
  \<open>rounded((subtotal - discountTotal - giftCardTotal.total + shippingTotal) * (tax_rate / 100))\<close>,
  each operation being the source's operation on doubles, with no deduction of the gift
  cards' tax afterwards.  For subtotal 1000, discount 100, shipping 50, no gift card and
  \<open>tax_rate\<close> 25 this is 238; for a subtotal of 90 alone and \<open>tax_rate\<close> 35 it is 31,
  the product of the doubles being just below 31.5.
\<close>

theorem getTaxTotal_legacy:
  assumes "isOrder x" and "tax_rate x = Some r"
    and "list_all (\<lambda>i. tax_lines i \<noteq> None) (items x)"
    and "getSubtotal c x False = Inr s" and "getDiscountTotal c x = Inr d"
    and "getGiftCardTotal c x None = Inr g" and "getShippingTotal c x = Inr sh"
  shows "getTaxTotal c x forceTaxes
         = Inr (Some (rounded (dmul (dadd (dsub (dsub s d) (gc_total g)) sh) (ddiv r 100))))"
  using assms by (simp add: getTaxTotal_def order_not_cart)

theorem getTaxTotal_legacy_witness:
  "isOrder legacy_order \<and> tax_rate legacy_order = Some 25 \<and>
   list_all (\<lambda>i. tax_lines i \<noteq> None) (items legacy_order) \<and>
   getSubtotal stub_collaborators legacy_order False = Inr 1000 \<and>
   getDiscountTotal stub_collaborators legacy_order = Inr 100 \<and>
   getGiftCardTotal stub_collaborators legacy_order None
     = Inr \<lparr> gc_total = 0, gc_tax_total = 0 \<rparr> \<and>
   getShippingTotal stub_collaborators legacy_order = Inr 50 \<and>
   getTaxTotal stub_collaborators legacy_order False = Inr (Some 238) \<and>
   isOrder small_legacy_order \<and> tax_rate small_legacy_order = Some 35 \<and>
   getSubtotal stub_collaborators small_legacy_order False = Inr 90 \<and>
   getDiscountTotal stub_collaborators small_legacy_order = Inr 0 \<and>
   getShippingTotal stub_collaborators small_legacy_order = Inr 0 \<and>
   getTaxTotal stub_collaborators small_legacy_order False = Inr (Some 31)"
proof -
  have a: "isOrder legacy_order"
    by code_simp
  have b: "tax_rate legacy_order = Some 25"
    by code_simp
  have j: "list_all (\<lambda>i. tax_lines i \<noteq> None) (items legacy_order)"
    by code_simp
  have s: "getSubtotal stub_collaborators legacy_order False = Inr 1000"
    by code_simp
  have d: "getDiscountTotal stub_collaborators legacy_order = Inr 100"
    by code_simp
  have g: "getGiftCardTotal stub_collaborators legacy_order None
           = Inr \<lparr> gc_total = 0, gc_tax_total = 0 \<rparr>"
    by code_simp
  have sh: "getShippingTotal stub_collaborators legacy_order = Inr 50"
    by code_simp
  have v: "rounded (dmul (dadd (dsub (dsub 1000 100) (gc_total \<lparr> gc_total = 0, gc_tax_total = 0 \<rparr>))
                            50) (ddiv 25 100)) = 238"
    by code_simp
  have a': "isOrder small_legacy_order"
    by code_simp
  have b': "tax_rate small_legacy_order = Some 35"
    by code_simp
  have j': "list_all (\<lambda>i. tax_lines i \<noteq> None) (items small_legacy_order)"
    by code_simp
  have s': "getSubtotal stub_collaborators small_legacy_order False = Inr 90"
    by code_simp
  have d': "getDiscountTotal stub_collaborators small_legacy_order = Inr 0"
    by code_simp
  have g': "getGiftCardTotal stub_collaborators small_legacy_order None
           = Inr \<lparr> gc_total = 0, gc_tax_total = 0 \<rparr>"
    by code_simp
  have sh': "getShippingTotal stub_collaborators small_legacy_order = Inr 0"
    by code_simp
  have v': "rounded (dmul (dadd (dsub (dsub 90 0) (gc_total \<lparr> gc_total = 0, gc_tax_total = 0 \<rparr>))
                            0) (ddiv 35 100)) = 31"
    by code_simp
  from getTaxTotal_legacy [OF a b j s d g sh, of False]
    getTaxTotal_legacy [OF a' b' j' s' d' g' sh', of False]
    a b j s d g sh v a' b' s' d' sh' v'
  show ?thesis by simp
qed

subsection \<open>Orders loaded without tax lines\<close>

lemma unjoined_item_fails:
  assumes "isOrder x" and "tax_rate x = None" and "tax_lines i = None"
  shows "\<exists>e. getLineItemSubtotal c x i = Inl e"
  using assms
  by (simp add: getLineItemSubtotal_def getLineItemTotals_def line_item_tax_lines_def
      legacy_tax_rate_def line_item_apply_tax_def Let_def)

lemma getSubtotal_loop_fails:
  assumes "i \<in> set its" and "\<exists>e. getLineItemSubtotal c x i = Inl e"
  shows "\<exists>e. getSubtotal_loop c x False acc its = Inl e"
  using assms
proof (induction its arbitrary: acc)
  case Nil
  then show ?case by simp
next
  case (Cons a its)
  show ?case
  proof (cases "getLineItemSubtotal c x a")
    case (Inl e)
    then show ?thesis by simp
  next
    case (Inr v)
    with Cons.prems have "i \<in> set its" by auto
    from Cons.IH [OF this Cons.prems(2)] Inr show ?thesis by simp
  qed
qed

lemma new_order_gift_card_total_fails:
  assumes "isOrder x" and "tax_rate x = None"
    and "list_ex (\<lambda>i. tax_lines i = None) (items x)"
  shows "\<exists>e. getGiftCardTotal c x None = Inl e"
proof -
  from assms(3) obtain i where i: "i \<in> set (items x)" "tax_lines i = None"
    by (auto simp: list_ex_iff)
  from getSubtotal_loop_fails [OF i(1) unjoined_item_fails [OF assms(1,2) i(2)]]
  obtain e where "getSubtotal_loop c x False 0 (items x) = Inl e"
    by blast
  then show ?thesis
    by (simp add: getGiftCardTotal_def getSubtotal_def)
qed

text \<open>
  C10, as stated, fails: on an order of the new tax system (\<open>tax_rate\<close> null) whose item
  has no tax lines, \<open>getTaxTotal\<close> rejects with another error, raised by
  \<open>getLineItemTotals\<close> while the gift card total is computed, before the check on the
  tax lines is reached.
\<close>

theorem getTaxTotal_unjoined_counterexample:
  "isOrder new_order_unjoined \<and>
   list_ex (\<lambda>i. tax_lines i = None) (items new_order_unjoined) \<and>
   getTaxTotal stub_collaborators new_order_unjoined False
     = Inl (UNEXPECTED_STATE ''Tax Lines must be joined on items to calculate taxes'')"
  by code_simp

text \<open>
  C10, amended.  For every order in which some line item's \<open>tax_lines\<close> is undefined,
  \<open>getTaxTotal\<close> fails.  When the order's \<open>tax_rate\<close> is non-null and the gift card
  total has been computed, the error is the \<open>UnexpectedState\<close> error
  "Order tax calculations must have tax lines joined on line items": the check stands
  before the choice between the two tax systems, although the flat-rate computation never
  reads tax lines.  When the \<open>tax_rate\<close> is null, the computation of the gift card total
  already fails, and \<open>getTaxTotal\<close> fails with that error.
\<close>

theorem getTaxTotal_unjoined:
  assumes "isOrder x" and "list_ex (\<lambda>i. tax_lines i = None) (items x)"
  shows "(\<exists>e. getTaxTotal c x forceTaxes = Inl e) \<and>
         (\<forall>r g. tax_rate x = Some r \<and> getGiftCardTotal c x None = Inr g \<longrightarrow>
            getTaxTotal c x forceTaxes
              = Inl (UNEXPECTED_STATE
                       ''Order tax calculations must have tax lines joined on line items'')) \<and>
         (tax_rate x = None \<longrightarrow>
            (\<exists>e. getGiftCardTotal c x None = Inl e \<and> getTaxTotal c x forceTaxes = Inl e))"
proof -
  from assms(2) obtain i where i: "i \<in> set (items x)" "tax_lines i = None"
    by (auto simp: list_ex_iff)
  then have nj: "\<not> list_all (\<lambda>i. tax_lines i \<noteq> None) (items x)"
    by (auto simp: list_all_iff)
  have unfold: "getTaxTotal c x forceTaxes =
      await (getGiftCardTotal c x None) (\<lambda>g.
        Inl (UNEXPECTED_STATE ''Order tax calculations must have tax lines joined on line items''))"
    using assms(1) nj by (simp add: getTaxTotal_def order_not_cart)
  have fails: "\<exists>e. getTaxTotal c x forceTaxes = Inl e"
    unfolding unfold by (cases "getGiftCardTotal c x None") simp_all
  have legacy: "\<forall>r g. tax_rate x = Some r \<and> getGiftCardTotal c x None = Inr g \<longrightarrow>
            getTaxTotal c x forceTaxes
              = Inl (UNEXPECTED_STATE
                       ''Order tax calculations must have tax lines joined on line items'')"
    unfolding unfold by auto
  have new: "\<exists>e. getGiftCardTotal c x None = Inl e \<and> getTaxTotal c x forceTaxes = Inl e"
    if "tax_rate x = None"
    using new_order_gift_card_total_fails [OF assms(1) that assms(2), of c]
    unfolding unfold by auto
  from fails legacy new show ?thesis by blast
qed

theorem getTaxTotal_unjoined_witness:
  "isOrder legacy_order_unjoined \<and>
   list_ex (\<lambda>i. tax_lines i = None) (items legacy_order_unjoined) \<and>
   tax_rate legacy_order_unjoined = Some 25 \<and>
   getGiftCardTotal stub_collaborators legacy_order_unjoined None
     = Inr \<lparr> gc_total = 0, gc_tax_total = 0 \<rparr> \<and>
   getTaxTotal stub_collaborators legacy_order_unjoined False
     = Inl (UNEXPECTED_STATE ''Order tax calculations must have tax lines joined on line items'')"
proof -
  have a: "isOrder legacy_order_unjoined"
    by code_simp
  have u: "list_ex (\<lambda>i. tax_lines i = None) (items legacy_order_unjoined)"
    by code_simp
  have r: "tax_rate legacy_order_unjoined = Some 25"
    by code_simp
  have g: "getGiftCardTotal stub_collaborators legacy_order_unjoined None
           = Inr \<lparr> gc_total = 0, gc_tax_total = 0 \<rparr>"
    by code_simp
  from getTaxTotal_unjoined [OF a u, of stub_collaborators False] a u r g
  show ?thesis by blast
qed

subsection \<open>Free shipping\<close>

text \<open>
  C5, as stated, fails: for an order of the new tax system whose shipping method has no
  tax lines, and for which the provider finds none, \<open>getShippingMethodTotals\<close> with
  \<open>include_tax\<close> rejects before the free shipping override is reached.
\<close>

theorem free_shipping_override_counterexample:
  "hasFreeShipping free_shipping_order \<and> isOrder free_shipping_order \<and>
   getShippingMethodTotals stub_collaborators plain_shipping_method free_shipping_order with_tax
   = Inl (UNEXPECTED_STATE ''Tax Lines must be joined on shipping method to calculate taxes'')"
  by code_simp

text \<open>
  C5, amended.  For every cart or order that carries at least one discount of type
  FREE_SHIPPING, every shipping method and every option set, a breakdown returned by
  \<open>getShippingMethodTotals\<close> has \<open>total = 0\<close>, \<open>subtotal = 0\<close> and \<open>tax_total = 0\<close>,
  whatever the method's price and tax lines, and a breakdown is returned whenever the tax
  line provider and the tax calculation strategy answer, with one exception: for an
  order with null \<open>tax_rate\<close>, under \<open>include_tax\<close>, whose method has no tax lines and
  for which the provider's answer holds no line of this method, the call fails with the
  \<open>UnexpectedState\<close> error "Tax Lines must be joined on shipping method to calculate
  taxes".
\<close>

theorem free_shipping_override:
  assumes "hasFreeShipping x"
  shows "(\<forall>t. getShippingMethodTotals c sm x opts = Inr t \<longrightarrow>
            smt_total t = 0 \<and> smt_subtotal t = 0 \<and> smt_tax_total t = 0) \<and>
         ((\<forall>its k. \<exists>l. getTaxLines c its k = Inr l)
            \<and> (\<forall>l k. \<exists>v. calculate c [] l k = Inr v)
            \<and> \<not> (isOrder x \<and> tax_rate x = None \<and> smo_include_tax opts \<and> sm_tax_lines sm = []
                 \<and> (\<exists>lines. getTaxLines c (items x) (shipping_context x sm opts) = Inr lines
                       \<and> filter (\<lambda>ol. shipping_method_id ol = Some (sm_id sm)) lines = [])) \<longrightarrow>
            (\<exists>t. getShippingMethodTotals c sm x opts = Inr t)) \<and>
         (isOrder x \<and> tax_rate x = None \<and> smo_include_tax opts \<and> sm_tax_lines sm = []
            \<and> (\<exists>lines. getTaxLines c (items x) (shipping_context x sm opts) = Inr lines
                  \<and> filter (\<lambda>ol. shipping_method_id ol = Some (sm_id sm)) lines = []) \<longrightarrow>
            getShippingMethodTotals c sm x opts
              = Inl (UNEXPECTED_STATE
                       ''Tax Lines must be joined on shipping method to calculate taxes''))"
proof -
  let ?ctx = "shipping_context x sm opts"
  let ?none = "\<lambda>lines. filter (\<lambda>ol. shipping_method_id ol = Some (sm_id sm)) lines = []"
  let ?throws = "isOrder x \<and> tax_rate x = None \<and> smo_include_tax opts \<and> sm_tax_lines sm = []
                 \<and> (\<exists>lines. getTaxLines c (items x) ?ctx = Inr lines \<and> ?none lines)"
  have zeros: "\<forall>t. getShippingMethodTotals c sm x opts = Inr t \<longrightarrow>
            smt_total t = 0 \<and> smt_subtotal t = 0 \<and> smt_tax_total t = 0"
    using assms by (auto simp: getShippingMethodTotals_def Let_def await_Inr_iff)
  have returns: "\<exists>t. getShippingMethodTotals c sm x opts = Inr t"
    if p: "\<forall>its k. \<exists>l. getTaxLines c its k = Inr l"
      and s: "\<forall>l k. \<exists>v. calculate c [] l k = Inr v"
      and nt: "\<not> ?throws"
  proof -
    have apply_ok: "\<exists>t. shipping_apply_tax c sm k t0 = Inr t" for k t0
    proof -
      from s obtain v where "calculate c [] (smt_tax_lines t0) k = Inr v"
        by blast
      then show ?thesis
        by (simp add: shipping_apply_tax_def Let_def)
    qed
    have lines_ok: "\<exists>t. shipping_tax_lines c sm x ?ctx t0 = Inr t"
      if t0: "smt_tax_lines t0 = sm_tax_lines sm" and inc: "smo_include_tax opts" for t0
    proof (cases "legacy_tax_rate x")
      case (Some r)
      then show ?thesis
        by (simp add: shipping_tax_lines_def)
    next
      case None
      from p obtain l where l: "getTaxLines c (items x) ?ctx = Inr l"
        by blast
      show ?thesis
      proof (cases "sm_tax_lines sm = []")
        case False
        with None t0 show ?thesis
          by (simp add: shipping_tax_lines_def)
      next
        case True
        show ?thesis
        proof (cases "?none l \<and> isOrder x")
          case False
          with None t0 True l show ?thesis
            by (auto simp: shipping_tax_lines_def Let_def)
        next
          case True': True
          from None True' have "tax_rate x = None"
            by (simp add: legacy_tax_rate_def)
          with True True' inc l nt show ?thesis
            by blast
        qed
      qed
    qed
    show ?thesis
    proof (cases "smo_include_tax opts")
      case False
      with assms show ?thesis
        by (simp add: getShippingMethodTotals_def Let_def)
    next
      case True
      let ?t0 = "\<lparr> smt_price = price sm, smt_tax_total = 0, smt_total = price sm,
                   smt_subtotal = price sm, smt_original_total = price sm,
                   smt_original_tax_total = 0, smt_tax_lines = sm_tax_lines sm \<rparr>"
      from lines_ok [of ?t0] True obtain t1
        where t1: "shipping_tax_lines c sm x ?ctx ?t0 = Inr t1"
        by auto
      from apply_ok [of ?ctx t1] obtain t2
        where t2: "shipping_apply_tax c sm ?ctx t1 = Inr t2"
        by blast
      from True t1 t2 assms show ?thesis
        by (simp add: getShippingMethodTotals_def Let_def)
    qed
  qed
  have throws: "getShippingMethodTotals c sm x opts
              = Inl (UNEXPECTED_STATE
                       ''Tax Lines must be joined on shipping method to calculate taxes'')"
    if "?throws"
  proof -
    from that obtain lines where l: "getTaxLines c (items x) ?ctx = Inr lines" "?none lines"
      by blast
    from that have "legacy_tax_rate x = None"
      by (simp add: legacy_tax_rate_def)
    with that l show ?thesis
      by (simp add: getShippingMethodTotals_def shipping_tax_lines_def Let_def)
  qed
  from zeros returns throws show ?thesis by blast
qed

theorem free_shipping_override_witness:
  "hasFreeShipping free_shipping_cart \<and>
   (\<exists>t. getShippingMethodTotals (flat_tax_collaborators 50) taxed_shipping_method
           free_shipping_cart with_tax = Inr t
         \<and> smt_price t = 500 \<and> smt_original_total t = 550
         \<and> smt_total t = 0 \<and> smt_subtotal t = 0 \<and> smt_tax_total t = 0) \<and>
   hasFreeShipping free_shipping_order \<and> isOrder free_shipping_order \<and>
   tax_rate free_shipping_order = None \<and>
   (\<exists>t. getShippingMethodTotals (flat_tax_collaborators 50) taxed_shipping_method
           free_shipping_order with_tax = Inr t
         \<and> smt_total t = 0 \<and> smt_subtotal t = 0 \<and> smt_tax_total t = 0) \<and>
   getShippingMethodTotals (flat_tax_collaborators 50) plain_shipping_method
     free_shipping_order with_tax
   = Inl (UNEXPECTED_STATE ''Tax Lines must be joined on shipping method to calculate taxes'')"
proof -
  let ?c = "flat_tax_collaborators 50"
  have h: "hasFreeShipping free_shipping_cart"
    by code_simp
  have p: "\<forall>its k. \<exists>l. getTaxLines ?c its k = Inr l"
    by (simp add: flat_tax_collaborators_def stub_collaborators_def)
  have s: "\<forall>l k. \<exists>v. calculate ?c [] l k = Inr v"
    by (simp add: flat_tax_collaborators_def stub_collaborators_def)
  have nc: "\<not> isOrder free_shipping_cart"
    by code_simp
  from free_shipping_override [OF h, of ?c taxed_shipping_method with_tax] p s nc
  obtain t where t: "getShippingMethodTotals ?c taxed_shipping_method
           free_shipping_cart with_tax = Inr t"
    and z: "smt_total t = 0 \<and> smt_subtotal t = 0 \<and> smt_tax_total t = 0"
    by blast
  have run: "map_sum id (\<lambda>t. (smt_price t, smt_original_total t))
               (getShippingMethodTotals ?c taxed_shipping_method
                  free_shipping_cart with_tax) = Inr (500, 550)"
    by code_simp
  from run t have pr: "smt_price t = 500 \<and> smt_original_total t = 550"
    by simp
  have h': "hasFreeShipping free_shipping_order"
    by code_simp
  have o: "isOrder free_shipping_order"
    by code_simp
  have n: "tax_rate free_shipping_order = None"
    by code_simp
  have tl: "sm_tax_lines taxed_shipping_method \<noteq> []"
    by code_simp
  from free_shipping_override [OF h', of ?c taxed_shipping_method with_tax] p s tl
  obtain t' where t': "getShippingMethodTotals ?c taxed_shipping_method
           free_shipping_order with_tax = Inr t'"
    and z': "smt_total t' = 0 \<and> smt_subtotal t' = 0 \<and> smt_tax_total t' = 0"
    by blast
  have inc: "smo_include_tax with_tax"
    by code_simp
  have ntl: "sm_tax_lines plain_shipping_method = []"
    by code_simp
  have found: "getTaxLines ?c (items free_shipping_order)
                 (shipping_context free_shipping_order plain_shipping_method with_tax) = Inr []"
    by (simp add: flat_tax_collaborators_def stub_collaborators_def)
  from free_shipping_override [OF h', of ?c plain_shipping_method with_tax] o n inc ntl found
  have ko: "getShippingMethodTotals ?c plain_shipping_method free_shipping_order with_tax
            = Inl (UNEXPECTED_STATE
                     ''Tax Lines must be joined on shipping method to calculate taxes'')"
    by simp
  from h t z pr h' o n t' z' ko show ?thesis by blast
qed

subsection \<open>The legacy tax total and the collaborators\<close>











subsection \<open>Refunds\<close>

lemma getRefundTotal_loop_prefix:
  assumes "list_all (\<lambda>i. li_id i \<in> set ids) pre"
    and "map (getLineItemRefund c order) pre = map Inr rs"
  shows "getRefundTotal_loop c order ids acc (pre @ rest)
         = getRefundTotal_loop c order ids (acc @ rs) rest"
  using assms
proof (induction pre arbitrary: acc rs)
  case Nil
  then show ?case by simp
next
  case (Cons a pre)
  from Cons.prems(2) obtain r rs' where rs: "rs = r # rs'"
    and r: "getLineItemRefund c order a = Inr r"
    and rest: "map (getLineItemRefund c order) pre = map Inr rs'"
    by (cases rs) auto
  from Cons.prems(1) have m: "li_id a \<in> set ids"
    and ms: "list_all (\<lambda>i. li_id i \<in> set ids) pre"
    by simp_all
  from Cons.IH [OF ms rest, of "acc @ [r]"] m r rs show ?case by simp
qed

lemma getRefundTotal_loop_missing:
  assumes "list_ex (\<lambda>i. li_id i \<notin> set ids) its"
  shows "\<exists>e. getRefundTotal_loop c order ids acc its = Inl e"
  using assms
proof (induction its arbitrary: acc)
  case Nil
  then show ?case by simp
next
  case (Cons a its)
  show ?case
  proof (cases "li_id a \<in> set ids")
    case False
    then show ?thesis by simp
  next
    case True
    with Cons.prems have ex: "list_ex (\<lambda>i. li_id i \<notin> set ids) its"
      by simp
    show ?thesis
    proof (cases "getLineItemRefund c order a")
      case (Inl e)
      with True show ?thesis by simp
    next
      case (Inr r)
      with True Cons.IH [OF ex, of "acc @ [r]"] show ?thesis by simp
    qed
  qed
qed

lemma refundable_ids_merged: "refundable_ids order = map li_id (merged_items order)"
  by (simp add: refundable_ids_def merged_items_def map_concat comp_def split: option.splits)

text \<open>
  C7, as stated, fails: the ids are checked one item at a time, in the loop that also
  computes the refunds, so the failure of \<open>getLineItemRefund\<close> on an earlier item comes
  first.  Here the order's own item has no tax lines and the second requested item is
  not on the order: the error is \<open>UnexpectedState\<close>, not \<open>InvalidData\<close>.
\<close>

theorem getRefundTotal_validation_counterexample:
  "li_id stranger_item \<notin> set (refundable_ids new_order_unjoined) \<and>
   getRefundTotal stub_collaborators new_order_unjoined
     [discounted_item\<lparr> tax_lines := None \<rparr>, stranger_item]
   = Inl (UNEXPECTED_STATE ''Tax calculation did not receive tax_lines'')"
  by code_simp

text \<open>
  C7, amended.  \<open>getRefundTotal(order, lineItems)\<close> fails whenever some requested
  item's id is not among \<open>order.items\<close>, the swaps' and the claims' additional items;
  the error is \<open>InvalidData\<close> when \<open>getLineItemRefund\<close> succeeds on every requested
  item that precedes the first such item.  When every requested id is present and
  \<open>getLineItemRefund\<close> succeeds on every requested item, the result is the rounded sum
  of these refunds.
\<close>

theorem getRefundTotal_validation:
  "(list_ex (\<lambda>i. li_id i \<notin> set (refundable_ids order)) lineItems \<longrightarrow>
      (\<exists>e. getRefundTotal c order lineItems = Inl e)) \<and>
   (\<forall>pre bad post rs.
      lineItems = pre @ bad # post \<and> li_id bad \<notin> set (refundable_ids order) \<and>
      list_all (\<lambda>i. li_id i \<in> set (refundable_ids order)) pre \<and>
      map (getLineItemRefund c order) pre = map Inr rs \<longrightarrow>
      getRefundTotal c order lineItems = Inl (INVALID_DATA ''Line item does not exist on order'')) \<and>
   (\<forall>rs.
      list_all (\<lambda>i. li_id i \<in> set (refundable_ids order)) lineItems \<and>
      map (getLineItemRefund c order) lineItems = map Inr rs \<longrightarrow>
      getRefundTotal c order lineItems = Inr (js_round (foldl js_add (Fin 0) rs)))"
proof -
  have a: "\<exists>e. getRefundTotal c order lineItems = Inl e"
    if "list_ex (\<lambda>i. li_id i \<notin> set (refundable_ids order)) lineItems"
  proof -
    from getRefundTotal_loop_missing [OF that, of c order "[]"]
    show ?thesis by (auto simp: getRefundTotal_def)
  qed
  have b: "getRefundTotal c order lineItems = Inl (INVALID_DATA ''Line item does not exist on order'')"
    if "lineItems = pre @ bad # post" and "li_id bad \<notin> set (refundable_ids order)"
      and "list_all (\<lambda>i. li_id i \<in> set (refundable_ids order)) pre"
      and "map (getLineItemRefund c order) pre = map Inr rs" for pre bad post rs
  proof -
    from getRefundTotal_loop_prefix [OF that(3,4), of "[]" "bad # post"] that(1,2)
    show ?thesis by (simp add: getRefundTotal_def)
  qed
  have d: "getRefundTotal c order lineItems = Inr (js_round (foldl js_add (Fin 0) rs))"
    if "list_all (\<lambda>i. li_id i \<in> set (refundable_ids order)) lineItems"
      and "map (getLineItemRefund c order) lineItems = map Inr rs" for rs
  proof -
    from getRefundTotal_loop_prefix [OF that, of "[]" "[]"]
    show ?thesis by (simp add: getRefundTotal_def)
  qed
  from a b d show ?thesis by blast
qed

theorem getRefundTotal_validation_witness:
  "getRefundTotal stub_collaborators new_order [discounted_item, two_rate_item] = Inr (Fin 1902) \<and>
   getRefundTotal stub_collaborators new_order [discounted_item, stranger_item]
     = Inl (INVALID_DATA ''Line item does not exist on order'')"
proof -
  let ?ids = "refundable_ids new_order"
  have p: "list_all (\<lambda>i. li_id i \<in> set ?ids) [discounted_item, two_rate_item]"
    by code_simp
  have r: "map (getLineItemRefund stub_collaborators new_order) [discounted_item, two_rate_item]
           = map Inr [Fin 900, Fin 1002]"
    by code_simp
  have v: "js_round (foldl js_add (Fin 0) [Fin 900, Fin 1002]) = Fin 1902"
    by code_simp
  have p1: "list_all (\<lambda>i. li_id i \<in> set ?ids) [discounted_item]"
    by code_simp
  have r1: "map (getLineItemRefund stub_collaborators new_order) [discounted_item]
            = map Inr [Fin 900]"
    by code_simp
  have bad: "li_id stranger_item \<notin> set ?ids"
    by code_simp
  have split: "[discounted_item, stranger_item] = [discounted_item] @ stranger_item # []"
    by simp
  from getRefundTotal_validation [where order = new_order and c = stub_collaborators
      and lineItems = "[discounted_item, two_rate_item]"] p r v
  have ok: "getRefundTotal stub_collaborators new_order [discounted_item, two_rate_item]
            = Inr (Fin 1902)"
    by metis
  from getRefundTotal_validation [where order = new_order and c = stub_collaborators
      and lineItems = "[discounted_item, stranger_item]"] split bad p1 r1
  have ko: "getRefundTotal stub_collaborators new_order [discounted_item, stranger_item]
            = Inl (INVALID_DATA ''Line item does not exist on order'')"
    by blast
  from ok ko show ?thesis by simp
qed

lemma tax_fold_finite:
  "foldl (\<lambda>acc next. js_add acc (js_round (js_scale (Fin S) (ddiv (rate next) 100)))) (Fin a) tls
   = Fin (foldl (\<lambda>acc tl. dadd acc (rounded (dmul S (ddiv (rate tl) 100)))) a tls)"
  by (induction tls arbitrary: a) (simp_all add: js_scale_def rounded_def)

text \<open>
  C8, as stated, fails: the tax is rounded per tax line, not computed from the sum of the
  rates.  With price 1010, quantity 1, a discount of 100 and two tax lines of 5%, the
  refund is \<open>910 + 46 + 46 = 1002\<close>, while \<open>S + S * 10/100\<close> is 1001, in exact
  arithmetic and on doubles alike.
\<close>

theorem getLineItemRefund_new_system_counterexample:
  "tax_rate new_order = None \<and> \<not> includes_tax two_rate_item \<and>
   tax_lines two_rate_item \<noteq> None \<and>
   unit_discount (getAllocationMap new_order False) two_rate_item = Fin 100 \<and>
   getLineItemRefund stub_collaborators new_order two_rate_item = Inr (Fin 1002) \<and>
   (1010 * 1 - 100) + (1010 * 1 - 100) * ((5 + 5) / 100) = (1001 :: rat) \<and>
   dadd (dsub (dmul 1010 1) 100) (dmul (dsub (dmul 1010 1) 100) (ddiv (dadd 5 5) 100)) = 1001"
  by code_simp

text \<open>
  C8, amended.  For every order with null \<open>tax_rate\<close> and every line item whose
  \<open>tax_lines\<close> are defined and whose price is not treated as including tax,
  \<open>getLineItemRefund\<close> returns \<open>S\<close> plus, for each tax line of the item,
  \<open>rounded(S * (rate / 100))\<close>, where \<open>S = unit_price * quantity - u * quantity\<close> and
  \<open>u\<close> is the finite per-unit discount \<open>unit_amount\<close> recorded for the item's id in the
  allocation map (0 when there is none); each operation is the source's operation on
  doubles.  With price 90, quantity 1, no discount and one tax line of 35% the refund is
  \<open>90 + 31 = 121\<close>, the product of the doubles being just below 31.5.
\<close>

theorem getLineItemRefund_new_system:
  assumes "tax_rate order = None" and "tax_lines lineItem = Some tls"
    and "\<not> (taxInclusivePricing c \<and> includes_tax lineItem)"
    and "unit_discount (getAllocationMap order False) lineItem = Fin u"
    and "S = dsub (dmul (dsub (unit_price lineItem) 0) (quantity lineItem))
                  (dmul u (quantity lineItem))"
  shows "getLineItemRefund c order lineItem
         = Inr (Fin (dadd S
                  (foldl (\<lambda>acc tl. dadd acc (rounded (dmul S (ddiv (rate tl) 100)))) 0 tls)))"
proof -
  have ds: "js_scale (unit_discount (getAllocationMap order False) lineItem) (quantity lineItem)
            = Fin (dmul u (quantity lineItem))"
    by (simp add: assms(4) js_scale_def)
  have sub: "js_sub (Fin (dmul (dsub (unit_price lineItem) 0) (quantity lineItem)))
               (Fin (dmul u (quantity lineItem))) = Fin S"
    by (simp add: assms(5) js_sub_def dadd_def dsub_def)
  show ?thesis
    using assms(1,2,3)
    by (simp add: getLineItemRefund_def Let_def ds sub tax_fold_finite)
qed

theorem getLineItemRefund_new_system_witness:
  "tax_rate new_order = None \<and>
   unit_discount (getAllocationMap new_order False) two_rate_item = Fin 100 \<and>
   getLineItemRefund stub_collaborators new_order two_rate_item = Inr (Fin 1002) \<and>
   unit_discount (getAllocationMap new_order False) small_taxed_item = Fin 0 \<and>
   getLineItemRefund stub_collaborators new_order small_taxed_item = Inr (Fin 121)"
proof -
  have a: "tax_rate new_order = None"
    by code_simp
  have b: "tax_lines two_rate_item
           = Some [\<lparr> rate = 5, item_id = Some ''item_2'', shipping_method_id = None \<rparr>,
                   \<lparr> rate = 5, item_id = Some ''item_2'', shipping_method_id = None \<rparr>]"
    by code_simp
  have f: "\<not> (taxInclusivePricing stub_collaborators \<and> includes_tax two_rate_item)"
    by code_simp
  have u: "unit_discount (getAllocationMap new_order False) two_rate_item = Fin 100"
    by code_simp
  have S: "910 = dsub (dmul (dsub (unit_price two_rate_item) 0) (quantity two_rate_item))
                   (dmul 100 (quantity two_rate_item))"
    by code_simp
  have r: "dadd 910 (foldl (\<lambda>acc tl. dadd acc (rounded (dmul 910 (ddiv (rate tl) 100)))) 0
             [\<lparr> rate = 5, item_id = Some ''item_2'', shipping_method_id = None \<rparr>,
              \<lparr> rate = 5, item_id = Some ''item_2'', shipping_method_id = None \<rparr>]) = 1002"
    by code_simp
  have b': "tax_lines small_taxed_item
            = Some [\<lparr> rate = 35, item_id = Some ''item_4'', shipping_method_id = None \<rparr>]"
    by code_simp
  have f': "\<not> (taxInclusivePricing stub_collaborators \<and> includes_tax small_taxed_item)"
    by code_simp
  have u': "unit_discount (getAllocationMap new_order False) small_taxed_item = Fin 0"
    by code_simp
  have S': "90 = dsub (dmul (dsub (unit_price small_taxed_item) 0) (quantity small_taxed_item))
                   (dmul 0 (quantity small_taxed_item))"
    by code_simp
  have r': "dadd 90 (foldl (\<lambda>acc tl. dadd acc (rounded (dmul 90 (ddiv (rate tl) 100)))) 0
             [\<lparr> rate = 35, item_id = Some ''item_4'', shipping_method_id = None \<rparr>]) = 121"
    by code_simp
  from getLineItemRefund_new_system [OF a b f u S]
    getLineItemRefund_new_system [OF a b' f' u' S']
    a u u' r r'
  show ?thesis by simp
qed

subsection \<open>The allocation map\<close>

lemma allocate_other: "k \<noteq> li_id (lda_item ld) \<Longrightarrow> allocate m ld k = m k"
  by (simp add: allocate_def Let_def split: option.splits)

lemma foldl_allocate_other:
  assumes "k \<notin> set (map (\<lambda>ld. li_id (lda_item ld)) lds)"
  shows "foldl allocate m lds k = m k"
  using assms
  by (induction lds arbitrary: m) (simp_all add: allocate_other)

lemma foldl_allocate_fresh:
  assumes "distinct (map (\<lambda>ld. li_id (lda_item ld)) lds)" and "ld \<in> set lds"
    and "\<forall>l \<in> set lds. m (li_id (lda_item l)) = None"
  shows "foldl allocate m lds (li_id (lda_item ld))
         = Some \<lparr> discount = Some
             \<lparr> ld_amount = dadd (lda_amount ld) (customAdjustmentsAmount ld),
               unit_amount = js_round (js_div (dadd (lda_amount ld) (customAdjustmentsAmount ld))
                                         (quantity (lda_item ld))) \<rparr> \<rparr>"
  using assms
proof (induction lds arbitrary: m)
  case Nil
  then show ?case by simp
next
  case (Cons a lds)
  show ?case
  proof (cases "ld = a")
    case True
    from Cons.prems(1) have "li_id (lda_item a) \<notin> set (map (\<lambda>ld. li_id (lda_item ld)) lds)"
      by simp
    from foldl_allocate_other [OF this, of "allocate m a"]
    have "foldl allocate m (a # lds) (li_id (lda_item a)) = allocate m a (li_id (lda_item a))"
      by simp
    also have "\<dots> = Some \<lparr> discount = Some
             \<lparr> ld_amount = dadd (lda_amount a) (customAdjustmentsAmount a),
               unit_amount = js_round (js_div (dadd (lda_amount a) (customAdjustmentsAmount a))
                                         (quantity (lda_item a))) \<rparr> \<rparr>"
      using Cons.prems(3) by (simp add: allocate_def Let_def)
    finally show ?thesis using True by simp
  next
    case False
    with Cons.prems(2) have in_rest: "ld \<in> set lds" by simp
    from Cons.prems(1) have d: "distinct (map (\<lambda>ld. li_id (lda_item ld)) lds)" by simp
    have "\<forall>l \<in> set lds. allocate m a (li_id (lda_item l)) = None"
    proof
      fix l
      assume l: "l \<in> set lds"
      from Cons.prems(1)
      have na: "li_id (lda_item a) \<notin> (\<lambda>ld. li_id (lda_item ld)) ` set lds"
        by simp
      have "li_id (lda_item l) \<noteq> li_id (lda_item a)"
      proof
        assume e: "li_id (lda_item l) = li_id (lda_item a)"
        from l have "li_id (lda_item l) \<in> (\<lambda>ld. li_id (lda_item ld)) ` set lds"
          by (rule imageI)
        with e na show False by simp
      qed
      with Cons.prems(3) l show "allocate m a (li_id (lda_item l)) = None"
        by (simp add: allocate_other)
    qed
    from Cons.IH [OF d in_rest this] show ?thesis by simp
  qed
qed

lemma allocation_of_fresh_item:
  assumes "distinct (map li_id (merged_items x))" and "i \<in> set (merged_items x)"
    and "list_all (\<lambda>j. li_id j \<notin> set inherited_properties) (merged_items x)"
    and "0 < quantity i"
  shows "\<exists>a. getAllocationMap x False (li_id i)
           = Some \<lparr> discount = Some
               \<lparr> ld_amount = a, unit_amount = Fin (rounded (ddiv a (quantity i))) \<rparr> \<rparr>
         \<and> a = dadd
                 (if allow_discounts i
                  then sumAdjustments
                         (filter (\<lambda>j. \<exists>d. first_allocating_discount x = Some d
                                           \<and> discount_id j = Some (d_id d))
                            (case adjustments i of None \<Rightarrow> [] | Some js \<Rightarrow> js))
                  else 0)
                 (sumAdjustments (filter (\<lambda>j. discount_id j = None)
                                    (case adjustments i of None \<Rightarrow> [] | Some js \<Rightarrow> js)))"
proof -
  let ?lds = "getLineDiscounts x (first_allocating_discount x)"
  let ?ld = "lineDiscountOf (first_allocating_discount x) i"
  have keys: "map (\<lambda>ld. li_id (lda_item ld)) ?lds = map li_id (merged_items x)"
    by (simp add: getLineDiscounts_def lineDiscountOf_def Let_def comp_def)
  have d: "distinct (map (\<lambda>ld. li_id (lda_item ld)) ?lds)"
    unfolding keys by (rule assms(1))
  have m: "?ld \<in> set ?lds"
    using assms(2) by (simp add: getLineDiscounts_def)
  have item: "lda_item ?ld = i"
    by (simp add: lineDiscountOf_def Let_def)
  have fresh: "\<forall>l \<in> set ?lds. empty_object (li_id (lda_item l)) = None"
    using assms(3)
    by (auto simp: getLineDiscounts_def lineDiscountOf_def Let_def empty_object_def list_all_iff)
  from foldl_allocate_fresh [OF d m fresh] item
  have "getAllocationMap x False (li_id i)
         = Some \<lparr> discount = Some
             \<lparr> ld_amount = dadd (lda_amount ?ld) (customAdjustmentsAmount ?ld),
               unit_amount = js_round (js_div (dadd (lda_amount ?ld) (customAdjustmentsAmount ?ld))
                                         (quantity i)) \<rparr> \<rparr>"
    by (simp add: getAllocationMap_def)
  moreover have "js_round (js_div a (quantity i)) = Fin (rounded (ddiv a (quantity i)))" for a
    using assms(4) by (simp add: js_div_def rounded_def)
  moreover have "dadd (lda_amount ?ld) (customAdjustmentsAmount ?ld)
     = dadd
         (if allow_discounts i
          then sumAdjustments
                 (filter (\<lambda>j. \<exists>d. first_allocating_discount x = Some d
                                   \<and> discount_id j = Some (d_id d))
                    (case adjustments i of None \<Rightarrow> [] | Some js \<Rightarrow> js))
          else 0)
         (sumAdjustments (filter (\<lambda>j. discount_id j = None)
                            (case adjustments i of None \<Rightarrow> [] | Some js \<Rightarrow> js)))"
    by (cases "first_allocating_discount x") (simp_all add: lineDiscountOf_def Let_def sumAdjustments_def)
  ultimately show ?thesis by simp
qed

lemma allocation_of_inherited_name:
  "getAllocationMap
     (order_with_repeated_item\<lparr> items := [half_item\<lparr> li_id := ''constructor'' \<rparr>] \<rparr>)
     False ''constructor''
   = Some \<lparr> discount = Some \<lparr> ld_amount = 1, unit_amount = Fin (1 / 2) \<rparr> \<rparr>"
  by code_simp

text \<open>
  C9.  The entry of an item with positive quantity holds, as \<open>amount\<close>, the sum of the
  item's adjustments of the first discount that is not FREE_SHIPPING (0 when the item
  does not allow discounts) plus the sum of its adjustments without a discount id, and
  as \<open>unit_amount\<close> the rounded quotient of \<open>amount\<close> by the quantity.  The lemma
  \<open>allocation_of_fresh_item\<close> shows this for an id that occurs once among the merged items
  and is not a name every object inherits.  When an id occurs a
  second time, \<open>getAllocationMap\<close> takes the branch that updates the existing entry,
  and that branch divides without rounding: for an item of quantity 2 with one custom
  adjustment of 1 the entry holds \<open>1/2\<close>, where \<open>round(1/2)\<close> is 1.
\<close>

theorem getAllocationMap_repeated_item_unrounded:
  "getAllocationMap order_with_repeated_item False (li_id half_item)
     = Some \<lparr> discount = Some \<lparr> ld_amount = 1, unit_amount = Fin (1 / 2) \<rparr> \<rparr> \<and>
   quantity half_item = 2 \<and> rounded (1 / 2) = 1 \<and>
   getAllocationMap (order_with_repeated_item\<lparr> items := [half_item] \<rparr>) False (li_id half_item)
     = Some \<lparr> discount = Some \<lparr> ld_amount = 1, unit_amount = Fin 1 \<rparr> \<rparr>"
  by code_simp

end
